theory Spec2Isabelle
  imports
    Complex_Main
    "HOL-Library.AList"
    "HOL-Library.Char_ord"
    "HOL-Library.List_Lexorder"
    "HOL-Library.Multiset"
    "HOL-Library.Product_Lexorder"
begin

section \<open>Python values shared by \<open>info.py\<close> and \<open>stats.py\<close>\<close>

text \<open>
  Exceptions are values. The string is a short tag of the raising statement, so that two
  raises of the same class in one function can be told apart.
\<close>

datatype error =
    TypeError string
  | ValueError string
  | AttributeError string
  | KeyError string
  | RuntimeError string
  | IndexError string
  | OSError string
  | ZeroDivisionError
  | NotImplementedError

text \<open>
  \<open>datetime.datetime\<close>: the fields of the object. \<open>tzinfo\<close> is the UTC offset in
  microseconds, \<open>None\<close> for a timezone-naive value.
\<close>

record datetime =
  year :: nat
  month :: nat
  day :: nat
  hour :: nat
  minute :: nat
  second :: nat
  microsecond :: nat
  tzinfo :: "int option"

definition is_leap :: "nat \<Rightarrow> bool" where
  "is_leap y = (y mod 4 = 0 \<and> (y mod 100 \<noteq> 0 \<or> y mod 400 = 0))"

definition days_before_year :: "nat \<Rightarrow> nat" where
  "days_before_year y = (let z = y - 1 in (z * 365 + z div 4 + z div 400) - z div 100)"

definition days_before_month :: "nat \<Rightarrow> nat \<Rightarrow> nat" where
  "days_before_month y m =
     (if m = 0 \<or> 12 < m then 0
      else [0, 0, 31, 59, 90, 120, 151, 181, 212, 243, 273, 304, 334] ! m
           + (if 2 < m \<and> is_leap y then 1 else 0))"

definition toordinal :: "datetime \<Rightarrow> nat" where
  "toordinal d = days_before_year (year d) + days_before_month (year d) (month d) + day d"

text \<open>The wall-clock reading in microseconds, and the instant it denotes when aware.\<close>

definition wall_us :: "datetime \<Rightarrow> int" where
  "wall_us d =
     int ((((toordinal d * 24 + hour d) * 60 + minute d) * 60 + second d) * 1000000
          + microsecond d)"

definition utc_us :: "datetime \<Rightarrow> int" where
  "utc_us d = wall_us d - (case tzinfo d of None \<Rightarrow> 0 | Some off \<Rightarrow> off)"

text \<open>
  Ordering two datetimes raises TypeError when exactly one of them is naive; two naive
  values compare by their fields, two aware values by their instants. Equality never
  raises: a naive and an aware value are unequal.
\<close>

definition py_lt :: "datetime \<Rightarrow> datetime \<Rightarrow> error + bool" where
  "py_lt a b =
     (case (tzinfo a, tzinfo b) of
        (None, None) \<Rightarrow> Inr (wall_us a < wall_us b)
      | (Some _, Some _) \<Rightarrow> Inr (utc_us a < utc_us b)
      | _ \<Rightarrow> Inl (TypeError ''compare offset-naive and offset-aware datetimes''))"

definition py_gt :: "datetime \<Rightarrow> datetime \<Rightarrow> error + bool" where
  "py_gt a b = py_lt b a"


text \<open>
  The system clock. \<open>datetime.now()\<close> returns the local wall-clock reading without a
  timezone; \<open>datetime.now(timezone.utc)\<close> returns the UTC reading with offset zero.
\<close>

record clock =
  local_time :: datetime
  utc_time :: datetime

definition datetime_now :: "clock \<Rightarrow> datetime" where
  "datetime_now c = (local_time c)\<lparr>tzinfo := None\<rparr>"

definition datetime_now_utc :: "clock \<Rightarrow> datetime" where
  "datetime_now_utc c = (utc_time c)\<lparr>tzinfo := Some 0\<rparr>"

text \<open>
  \<open>ChannelInfo.HtmlDict\<close>: one slot per attribute, \<open>None\<close> while the slot has never
  been assigned (\<open>hasattr\<close> is false).
\<close>

record htmldict =
  h_immutable :: bool
  h_about :: "string option"
  h_community :: "string option"
  h_featured_channels :: "string option"
  h_videos :: "string option"

text \<open>
  The Python objects the functions receive. Floats are exact rationals (no rounding, no
  NaN); \<open>PSet\<close> lists a set in its iteration order; \<open>PObject\<close> is any object of a
  class the code does not test for.
\<close>

datatype pyval =
    PNone
  | PBool bool
  | PInt int
  | PFloat rat
  | PStr string
  | PDatetime datetime
  | PTimedelta int
  | PList "pyval list"
  | PTuple "pyval list"
  | PSet "pyval list"
  | PDict "(string \<times> pyval) list"
  | PHtmlDict htmldict
  | PObject string

text \<open>\<open>isinstance(v, int)\<close> holds for \<open>bool\<close> too; \<open>True\<close> counts as 1.\<close>

fun as_int :: "pyval \<Rightarrow> int option" where
  "as_int (PInt i) = Some i"
| "as_int (PBool b) = Some (if b then 1 else 0)"
| "as_int _ = None"

text \<open>\<open>isinstance(v, (int, float))\<close>.\<close>

fun as_number :: "pyval \<Rightarrow> rat option" where
  "as_number (PFloat r) = Some r"
| "as_number (PInt i) = Some (of_int i)"
| "as_number (PBool b) = Some (if b then 1 else 0)"
| "as_number _ = None"

section \<open>\<open>stats.py\<close>: the store\<close>

text \<open>
  The storage types of the dataframe library that the code distinguishes. The flag of the
  integer, float and boolean types says whether the type is the nullable extension type
  (\<open>Int64\<close>) or the plain array type (\<open>int64\<close>); a datetime type carries its timezone
  offset when it has one.
\<close>

datatype dtype =
    D_object
  | D_int bool
  | D_float bool
  | D_complex
  | D_string
  | D_bool bool
  | D_datetime64 "int option"
  | D_timedelta64
  | D_other string

text \<open>One row of \<open>Stats._data\<close>: the six cells, in the canonical column order.\<close>

record row =
  video_id :: pyval
  timestamp :: pyval
  views :: pyval
  rating :: pyval
  likes :: pyval
  dislikes :: pyval

text \<open>
  \<open>Stats._data\<close> is kept row-wise: the storage types of the six columns, and the rows,
  each with its index label, in their order in the frame.
\<close>

record stats =
  col_dtypes :: "dtype list"
  rows :: "(int \<times> row) list"

text \<open>
  The storage types \<open>coerce_dtypes\<close> casts to for \<open>str\<close>, \<open>datetime\<close>, \<open>int\<close>,
  \<open>float\<close>, \<open>int\<close>, \<open>int\<close>.
\<close>

definition canonical_dtypes :: "dtype list" where
  "canonical_dtypes =
     [D_string, D_datetime64 None, D_int True, D_float True, D_int True, D_int True]"

text \<open>
  Equality of two cells as the library compares them: strings by content, timestamps as
  Python compares datetimes. The key identifies the equality class.
\<close>

datatype cellkey = K_naive int | K_aware int | K_other pyval

fun cell_key :: "pyval \<Rightarrow> cellkey" where
  "cell_key (PDatetime d) =
     (case tzinfo d of None \<Rightarrow> K_naive (wall_us d) | Some off \<Rightarrow> K_aware (wall_us d - off))"
| "cell_key v = K_other v"

definition row_key :: "row \<Rightarrow> cellkey \<times> cellkey" where
  "row_key r = (cell_key (video_id r), cell_key (timestamp r))"

definition unique_rows :: "stats \<Rightarrow> bool" where
  "unique_rows s = distinct (map (\<lambda>lr. row_key (snd lr)) (rows s))"

text \<open>
  What a call leaves behind: it returned, or it raised; either way with the store as it
  then is.
\<close>

datatype 'a outcome = Returned 'a | Raised error 'a

fun store_after :: "'a outcome \<Rightarrow> 'a" where
  "store_after (Returned s) = s"
| "store_after (Raised e s) = s"

text \<open>
  A store is in canonical form when its columns have the canonical storage types and every
  row holds a string id and a naive timestamp, as the naive \<open>datetime64[ns]\<close> column
  requires.
\<close>

fun is_naive_ts :: "pyval \<Rightarrow> bool" where
  "is_naive_ts (PDatetime d) = (tzinfo d = None)"
| "is_naive_ts _ = False"

fun is_str :: "pyval \<Rightarrow> bool" where
  "is_str (PStr _) = True"
| "is_str _ = False"

definition store_canonical :: "stats \<Rightarrow> bool" where
  "store_canonical s =
     (col_dtypes s = canonical_dtypes \<and>
      list_all (\<lambda>lr. is_str (video_id (snd lr)) \<and> is_naive_ts (timestamp (snd lr))) (rows s))"

text \<open>What the 64-bit columns can hold.\<close>

definition fits_int64 :: "int \<Rightarrow> bool" where
  "fits_int64 v = (- (2 ^ 63) \<le> v \<and> v < 2 ^ 63)"

definition fits_datetime64 :: "datetime \<Rightarrow> bool" where
  "fits_datetime64 d = (1678 \<le> year d \<and> year d \<le> 2261)"

text \<open>
  \<open>self._data.loc[label] = new_row\<close>: every row carrying the label is overwritten; when
  no row carries it, the row is appended.
\<close>

definition loc_set :: "int \<Rightarrow> row \<Rightarrow> (int \<times> row) list \<Rightarrow> (int \<times> row) list" where
  "loc_set l r rs =
     (if l \<in> fst ` set rs then map (\<lambda>lr. if fst lr = l then (l, r) else lr) rs
      else rs @ [(l, r)])"

text \<open>
  \<open>sort_values(["video_id", "timestamp"])\<close> on a store in canonical form: ascending by
  the id string, then by the naive timestamp; the labels travel with their rows.
\<close>

fun str_of :: "pyval \<Rightarrow> string" where
  "str_of (PStr s) = s"
| "str_of _ = []"

fun wall_of :: "pyval \<Rightarrow> int" where
  "wall_of (PDatetime d) = wall_us d"
| "wall_of _ = 0"

definition sort_by :: "row \<Rightarrow> string \<times> int" where
  "sort_by r = (str_of (video_id r), wall_of (timestamp r))"

definition sort_values :: "(int \<times> row) list \<Rightarrow> (int \<times> row) list" where
  "sort_values rs = sort_key (\<lambda>lr. sort_by (snd lr)) rs"

text \<open>The body of the loop over \<open>likes\<close> and \<open>dislikes\<close> in \<open>add_row\<close>.\<close>

definition check_count :: "string \<Rightarrow> pyval \<Rightarrow> error + int option" where
  "check_count k v =
     (if v = PNone then Inr None
      else case as_int v of
             None \<Rightarrow> Inl (TypeError k)
           | Some i \<Rightarrow> if i < 0 then Inl (ValueError k) else Inr (Some i))"

text \<open>
  \<open>Stats.add_row\<close>, lines 292 to 349: the argument checks and the duplicate check, in
  the order of the source. Nothing is written before they have all passed. The rest of the
  method follows the dataframe library below.
\<close>

definition add_row_checks ::
  "(string \<Rightarrow> bool) \<Rightarrow> clock \<Rightarrow> stats \<Rightarrow> pyval \<Rightarrow> pyval \<Rightarrow> pyval \<Rightarrow> pyval \<Rightarrow> pyval \<Rightarrow> pyval
     \<Rightarrow> error + (string \<times> datetime \<times> int \<times> rat option \<times> int option \<times> int option)" where
  "add_row_checks is_video_id clk s vid ts vws rtg lks dls =
     (case vid of
        PStr v \<Rightarrow>
          if \<not> is_video_id v then Inl (ValueError ''video_id'')
          else (case ts of
            PDatetime t \<Rightarrow>
              (case py_gt t (datetime_now clk) of
                 Inl e \<Rightarrow> Inl e
               | Inr True \<Rightarrow> Inl (ValueError ''timestamp in the future'')
               | Inr False \<Rightarrow>
                   (case as_int vws of
                      None \<Rightarrow> Inl (TypeError ''views'')
                    | Some n \<Rightarrow>
                        if n < 0 then Inl (ValueError ''views'')
                        else (case (if rtg = PNone then Inr None
                                    else case as_number rtg of
                                           None \<Rightarrow> Inl (TypeError ''rating'')
                                         | Some q \<Rightarrow>
                                             if \<not> (0 \<le> q \<and> q \<le> 5) then Inl (ValueError ''rating'')
                                             else Inr (Some q)) of
                                Inl e \<Rightarrow> Inl e
                              | Inr r \<Rightarrow>
                                  (case check_count ''likes'' lks of
                                     Inl e \<Rightarrow> Inl e
                                   | Inr l \<Rightarrow>
                                       (case check_count ''dislikes'' dls of
                                          Inl e \<Rightarrow> Inl e
                                        | Inr d \<Rightarrow>
                                            if list_ex (\<lambda>lr. cell_key (video_id (snd lr)) = cell_key vid
                                                           \<and> cell_key (timestamp (snd lr)) = cell_key ts)
                                                 (rows s)
                                            then Inl (ValueError ''duplicate row'')
                                            else Inr (v, t, n, r, l, d))))))
          | _ \<Rightarrow> Inl (TypeError ''timestamp''))
      | _ \<Rightarrow> Inl (TypeError ''video_id''))"

text \<open>
  Lines 352 and 353: the rating derived from the two counts. The division is Python's true
  division; it raises when both counts are zero.
\<close>

definition derive_rating :: "rat option \<Rightarrow> int option \<Rightarrow> int option \<Rightarrow> error + rat option" where
  "derive_rating r l d =
     (case (r, l, d) of
        (None, Some a, Some b) \<Rightarrow>
          if a + b = 0 then Inl ZeroDivisionError
          else Inr (Some (of_int (5 * a) / of_int (a + b)))
      | _ \<Rightarrow> Inr r)"

fun opt_int :: "int option \<Rightarrow> pyval" where
  "opt_int None = PNone"
| "opt_int (Some i) = PInt i"

fun opt_float :: "rat option \<Rightarrow> pyval" where
  "opt_float None = PNone"
| "opt_float (Some q) = PFloat q"

section \<open>\<open>stats.py\<close>: \<open>check_dtypes\<close> and \<open>coerce_dtypes\<close>\<close>

text \<open>A column of a dataframe: its storage type and its cells, \<open>PNone\<close> for a missing one.\<close>

record column =
  dtype :: dtype
  cells :: "pyval list"

text \<open>A dataframe: the index labels of its rows and its named columns, in their order.\<close>

record dataframe =
  index :: "int list"
  columns :: "(string \<times> column) list"

text \<open>
  The dataframe library, as far as its results depend on the data: \<open>convert_dtypes\<close>
  narrows a column to the best storage type (\<open>None\<close> when it raises TypeError),
  \<open>astype\<close> casts a column, \<open>empty_dtype\<close> is the storage type of a column built from an
  empty list, and \<open>read_csv\<close> parses the file of the given name with the dtypes and date
  column that \<open>from_csv\<close> passes. For \<open>add_row\<close>: \<open>setitem_dtype\<close> is the storage type
  a column of the given type has once the given cell has been written into it by
  \<open>loc\<close> (the flag tells whether the write added a row), and \<open>lexsort\<close> is
  \<open>sort_values(["video_id", "timestamp"])\<close> on the rows of a frame: the rows in their new
  order, each with its label, or the exception of a comparison.
\<close>

record engine =
  convert_dtypes :: "column \<Rightarrow> column option"
  astype :: "dtype \<Rightarrow> column \<Rightarrow> error + column"
  empty_dtype :: dtype
  read_csv :: "string \<Rightarrow> error + dataframe"
  setitem_dtype :: "bool \<Rightarrow> dtype \<Rightarrow> pyval \<Rightarrow> dtype"
  lexsort :: "(int \<times> row) list \<Rightarrow> error + (int \<times> row) list"

text \<open>The predicates of \<open>pandas.api.types\<close> that \<open>check_dtypes\<close> looks up.\<close>

fun is_object_dtype :: "dtype \<Rightarrow> bool" where
  "is_object_dtype D_object = True"
| "is_object_dtype _ = False"

fun is_integer_dtype :: "dtype \<Rightarrow> bool" where
  "is_integer_dtype (D_int _) = True"
| "is_integer_dtype _ = False"

fun is_float_dtype :: "dtype \<Rightarrow> bool" where
  "is_float_dtype (D_float _) = True"
| "is_float_dtype _ = False"

fun is_complex_dtype :: "dtype \<Rightarrow> bool" where
  "is_complex_dtype D_complex = True"
| "is_complex_dtype _ = False"

text \<open>
  On an object column the answer of \<open>is_string_dtype\<close> differs between versions of the
  library; \<open>check_dtypes\<close> never asks it there, since it tests for object first.
\<close>

fun is_string_dtype :: "dtype \<Rightarrow> bool" where
  "is_string_dtype D_string = True"
| "is_string_dtype D_object = True"
| "is_string_dtype _ = False"

fun is_bool_dtype :: "dtype \<Rightarrow> bool" where
  "is_bool_dtype (D_bool _) = True"
| "is_bool_dtype _ = False"

fun is_datetime64_any_dtype :: "dtype \<Rightarrow> bool" where
  "is_datetime64_any_dtype (D_datetime64 _) = True"
| "is_datetime64_any_dtype _ = False"

fun is_timedelta64_dtype :: "dtype \<Rightarrow> bool" where
  "is_timedelta64_dtype D_timedelta64 = True"
| "is_timedelta64_dtype _ = False"

text \<open>
  A typespec: one of the eight types of \<open>AVAILABLE_DTYPES\<close>, or any other hashable
  object. A keyword argument holds one typespec, a tuple of them, or a list or set of them.
\<close>

datatype typespec =
    T_object | T_int | T_float | T_complex | T_str | T_bool | T_datetime | T_timedelta
  | T_unknown string

datatype tsarg = Single typespec | Tuple "typespec list" | ListOrSet "typespec list"

definition AVAILABLE_DTYPES :: "typespec list" where
  "AVAILABLE_DTYPES =
     [T_object, T_int, T_float, T_complex, T_str, T_bool, T_datetime, T_timedelta]"

text \<open>\<open>dtype_lookup\<close> of \<open>check_dtypes\<close>; \<open>None\<close> is the KeyError of the dictionary.\<close>

fun check_lookup :: "typespec \<Rightarrow> (dtype \<Rightarrow> bool) option" where
  "check_lookup T_object = Some is_object_dtype"
| "check_lookup T_int = Some is_integer_dtype"
| "check_lookup T_float = Some is_float_dtype"
| "check_lookup T_complex = Some is_complex_dtype"
| "check_lookup T_str = Some is_string_dtype"
| "check_lookup T_bool = Some is_bool_dtype"
| "check_lookup T_datetime = Some is_datetime64_any_dtype"
| "check_lookup T_timedelta = Some is_timedelta64_dtype"
| "check_lookup (T_unknown _) = None"

text \<open>\<open>dtype_lookup\<close> of \<open>coerce_dtypes\<close>.\<close>

fun coerce_lookup :: "typespec \<Rightarrow> dtype option" where
  "coerce_lookup T_object = Some D_object"
| "coerce_lookup T_int = Some (D_int True)"
| "coerce_lookup T_float = Some (D_float True)"
| "coerce_lookup T_complex = Some D_complex"
| "coerce_lookup T_str = Some D_string"
| "coerce_lookup T_bool = Some (D_bool True)"
| "coerce_lookup T_datetime = Some (D_datetime64 None)"
| "coerce_lookup T_timedelta = Some D_timedelta64"
| "coerce_lookup (T_unknown _) = None"

text \<open>The \<open>try: ... convert_dtypes() except TypeError\<close> of both modes.\<close>

definition narrowed :: "engine \<Rightarrow> column \<Rightarrow> column" where
  "narrowed E c = (case convert_dtypes E c of None \<Rightarrow> c | Some c' \<Rightarrow> c')"

text \<open>
  \<open>check_dtypes(data)\<close> without keyword arguments: for every column the first typespec,
  in the order of the dictionary, whose predicate holds.
\<close>

definition check_dtypes_infer :: "engine \<Rightarrow> dataframe \<Rightarrow> (string \<times> typespec) list" where
  "check_dtypes_infer E data =
     List.map_filter
       (\<lambda>nc. map_option (Pair (fst nc))
          (find (\<lambda>ts. case check_lookup ts of None \<Rightarrow> False
                                           | Some p \<Rightarrow> p (dtype (narrowed E (snd nc))))
             AVAILABLE_DTYPES))
       (columns data)"

text \<open>One typespec against the narrowed column, lines 54 to 56 and 60 to 63.\<close>

definition check_one :: "dtype \<Rightarrow> typespec \<Rightarrow> error + bool" where
  "check_one d ts =
     (if ts = T_str \<and> is_object_dtype d then Inr False
      else case check_lookup ts of
             None \<Rightarrow> Inl (KeyError ''typespec'')
           | Some p \<Rightarrow> Inr (p d))"

fun check_each :: "dtype \<Rightarrow> typespec list \<Rightarrow> error + bool list" where
  "check_each d [] = Inr []"
| "check_each d (ts # tss) =
     (case check_one d ts of
        Inl e \<Rightarrow> Inl e
      | Inr b \<Rightarrow> (case check_each d tss of Inl e \<Rightarrow> Inl e | Inr bs \<Rightarrow> Inr (b # bs)))"

definition check_column :: "engine \<Rightarrow> dataframe \<Rightarrow> string \<Rightarrow> tsarg \<Rightarrow> error + bool" where
  "check_column E data n a =
     (case map_of (columns data) n of
        None \<Rightarrow> Inl (KeyError n)
      | Some c \<Rightarrow>
          (case a of
             Single ts \<Rightarrow> check_one (dtype (narrowed E c)) ts
           | Tuple tss \<Rightarrow>
               (case check_each (dtype (narrowed E c)) tss of
                  Inl e \<Rightarrow> Inl e | Inr bs \<Rightarrow> Inr (list_ex (\<lambda>b. b) bs))
           | ListOrSet tss \<Rightarrow>
               (case check_each (dtype (narrowed E c)) tss of
                  Inl e \<Rightarrow> Inl e | Inr bs \<Rightarrow> Inr (list_ex (\<lambda>b. b) bs))))"

text \<open>
  \<open>check_dtypes(data, **kwargs)\<close> with keyword arguments: \<open>all\<close> over a generator stops
  at the first column that fails.
\<close>

fun check_dtypes :: "engine \<Rightarrow> dataframe \<Rightarrow> (string \<times> tsarg) list \<Rightarrow> error + bool" where
  "check_dtypes E data [] = Inr True"
| "check_dtypes E data (na # kw) =
     (case check_column E data (fst na) (snd na) of
        Inl e \<Rightarrow> Inl e
      | Inr False \<Rightarrow> Inr False
      | Inr True \<Rightarrow> check_dtypes E data kw)"

text \<open>
  One pass of the loop of \<open>coerce_dtypes\<close>, lines 97 to 106: the check reads
  \<open>data\<close>, the cast reads and writes \<open>result\<close>; \<open>continue\<close> leaves \<open>result\<close> as it
  is.
\<close>

definition coerce_column ::
  "engine \<Rightarrow> dataframe \<Rightarrow> dataframe \<Rightarrow> string \<times> tsarg \<Rightarrow> error + dataframe" where
  "coerce_column E data result na =
     (case check_dtypes E data [na] of
        Inl e \<Rightarrow> Inl e
      | Inr True \<Rightarrow> Inr result
      | Inr False \<Rightarrow>
          (case map_of (columns result) (fst na) of
             None \<Rightarrow> Inl (KeyError (fst na))
           | Some c \<Rightarrow>
               (case snd na of
                  Single ts \<Rightarrow>
                    (case coerce_lookup ts of
                       None \<Rightarrow> Inl (KeyError ''typespec not recognized'')
                     | Some d \<Rightarrow>
                         (case astype E d c of
                            Inl e \<Rightarrow> Inl e
                          | Inr c' \<Rightarrow>
                              Inr (result\<lparr>columns := AList.update (fst na) c' (columns result)\<rparr>)))
                | Tuple tss \<Rightarrow> Inl (KeyError ''typespec not recognized'')
                | ListOrSet tss \<Rightarrow> Inl (TypeError ''unhashable type''))))"

fun coerce_loop ::
  "engine \<Rightarrow> dataframe \<Rightarrow> dataframe \<Rightarrow> (string \<times> tsarg) list \<Rightarrow> error + dataframe" where
  "coerce_loop E data result [] = Inr result"
| "coerce_loop E data result (na # kw) =
     (case coerce_column E data result na of
        Inl e \<Rightarrow> Inl e
      | Inr result' \<Rightarrow> coerce_loop E data result' kw)"

definition coerce_dtypes ::
  "engine \<Rightarrow> dataframe \<Rightarrow> (string \<times> tsarg) list \<Rightarrow> error + dataframe" where
  "coerce_dtypes E data kw =
     (if kw = [] then Inl (RuntimeError ''at least one keyword argument'')
      else coerce_loop E data data kw)"

section \<open>\<open>stats.py\<close>: construction and queries\<close>

definition expected_columns :: "(string \<times> typespec) list" where
  "expected_columns =
     [(''video_id'', T_str), (''timestamp'', T_datetime), (''views'', T_int),
      (''rating'', T_float), (''likes'', T_int), (''dislikes'', T_int)]"

definition expected_kwargs :: "(string \<times> tsarg) list" where
  "expected_kwargs = map (\<lambda>nt. (fst nt, Single (snd nt))) expected_columns"

text \<open>The argument \<open>data\<close> of \<open>Stats.__init__\<close>.\<close>

datatype data_arg = NoData | NotAFrame | Frame dataframe

text \<open>\<open>data[name]\<close> for a column that is known to exist.\<close>

definition getcol :: "dataframe \<Rightarrow> string \<Rightarrow> column" where
  "getcol df n = (case map_of (columns df) n of None \<Rightarrow> \<lparr>dtype = D_object, cells = []\<rparr> | Some c \<Rightarrow> c)"

text \<open>
  \<open>data[list(expected_columns)]\<close>, read row-wise: the six columns in the canonical
  order, every row with its index label.
\<close>

definition frame_rows :: "dataframe \<Rightarrow> (int \<times> row) list" where
  "frame_rows df =
     map (\<lambda>x. case x of (i, v, t, w, r, l, d) \<Rightarrow>
            (i, \<lparr>video_id = v, timestamp = t, views = w, rating = r, likes = l, dislikes = d\<rparr>))
       (zip (index df)
         (zip (cells (getcol df ''video_id''))
           (zip (cells (getcol df ''timestamp''))
             (zip (cells (getcol df ''views''))
               (zip (cells (getcol df ''rating''))
                 (zip (cells (getcol df ''likes'')) (cells (getcol df ''dislikes''))))))))"

definition frame_dtypes :: "dataframe \<Rightarrow> dtype list" where
  "frame_dtypes df = map (\<lambda>nt. dtype (getcol df (fst nt))) expected_columns"

text \<open>Lines 153 to 159: the storage type of every expected column.\<close>

fun check_columns :: "engine \<Rightarrow> dataframe \<Rightarrow> (string \<times> typespec) list \<Rightarrow> error + unit" where
  "check_columns E data [] = Inr ()"
| "check_columns E data (nt # rest) =
     (case check_dtypes E data [(fst nt, Single (snd nt))] of
        Inl e \<Rightarrow> Inl e
      | Inr True \<Rightarrow> check_columns E data rest
      | Inr False \<Rightarrow>
          (case map_of (check_dtypes_infer E data) (fst nt) of
             None \<Rightarrow> Inl (KeyError (fst nt))
           | Some _ \<Rightarrow> Inl (TypeError (fst nt))))"

text \<open>\<open>dropna(subset=["video_id", "timestamp"])\<close>.\<close>

definition dropna :: "(int \<times> row) list \<Rightarrow> (int \<times> row) list" where
  "dropna rs = filter (\<lambda>lr. video_id (snd lr) \<noteq> PNone \<and> timestamp (snd lr) \<noteq> PNone) rs"

text \<open>\<open>drop_duplicates(subset=["video_id", "timestamp"])\<close>: the first of equal rows stays.\<close>

fun drop_duplicates :: "(int \<times> row) list \<Rightarrow> (int \<times> row) list" where
  "drop_duplicates [] = []"
| "drop_duplicates (x # xs) =
     x # drop_duplicates (filter (\<lambda>y. row_key (snd y) \<noteq> row_key (snd x)) xs)"

text \<open>
  \<open>check_video_id\<close>, lines 168 to 172; a cell that is not a string is taken to fail the
  format check.
\<close>

fun check_video_id :: "(string \<Rightarrow> bool) \<Rightarrow> pyval \<Rightarrow> error + unit" where
  "check_video_id ivid (PStr v) = (if ivid v then Inr () else Inl (ValueError ''bad video id''))"
| "check_video_id ivid _ = Inl (ValueError ''bad video id'')"

text \<open>
  \<open>check_timestamp\<close>, lines 174 to 182: the comparison with the current time builds a
  message and raises nothing.
\<close>

fun check_timestamp :: "clock \<Rightarrow> pyval \<Rightarrow> error + unit" where
  "check_timestamp clk (PDatetime t) =
     (if tzinfo t = None then Inl (ValueError ''timestamp has no timezone'')
      else case py_gt t (datetime_now_utc clk) of
             Inl e \<Rightarrow> Inl e
           | Inr future \<Rightarrow> Inr ())"
| "check_timestamp clk _ = Inl (AttributeError ''tzinfo'')"

text \<open>\<open>Series.apply\<close> of a check: the first failure propagates.\<close>

fun apply_check :: "(pyval \<Rightarrow> error + unit) \<Rightarrow> pyval list \<Rightarrow> error + unit" where
  "apply_check f [] = Inr ()"
| "apply_check f (v # vs) = (case f v of Inl e \<Rightarrow> Inl e | Inr _ \<Rightarrow> apply_check f vs)"

text \<open>\<open>pd.DataFrame(dict.fromkeys(expected_columns, []))\<close>.\<close>

definition empty_frame :: "engine \<Rightarrow> dataframe" where
  "empty_frame E =
     \<lparr>index = [],
      columns = map (\<lambda>nt. (fst nt, \<lparr>dtype = empty_dtype E, cells = []\<rparr>)) expected_columns\<rparr>"

text \<open>\<open>Stats.__init__\<close>.\<close>

definition Stats_init ::
  "engine \<Rightarrow> (string \<Rightarrow> bool) \<Rightarrow> clock \<Rightarrow> data_arg \<Rightarrow> bool \<Rightarrow> error + stats" where
  "Stats_init E ivid clk data interpolate =
     (case data of
        NoData \<Rightarrow>
          (case coerce_dtypes E (empty_frame E) expected_kwargs of
             Inl e \<Rightarrow> Inl e
           | Inr df \<Rightarrow> Inr \<lparr>col_dtypes = frame_dtypes df, rows = frame_rows df\<rparr>)
      | NotAFrame \<Rightarrow> Inl (TypeError ''data'')
      | Frame df0 \<Rightarrow>
          if set (map fst (columns df0)) \<noteq> set (map fst expected_columns)
          then Inl (ValueError ''unexpected columns'')
          else (case check_columns E df0 expected_columns of
            Inl e \<Rightarrow> Inl e
          | Inr _ \<Rightarrow>
              (case coerce_dtypes E df0 expected_kwargs of
                 Inl e \<Rightarrow> Inl e
               | Inr df \<Rightarrow>
                   (let rs = drop_duplicates (dropna (frame_rows df)) in
                    case apply_check (check_video_id ivid) (map (\<lambda>lr. video_id (snd lr)) rs) of
                      Inl e \<Rightarrow> Inl e
                    | Inr _ \<Rightarrow>
                        (case apply_check (check_timestamp clk)
                                (map (\<lambda>lr. timestamp (snd lr)) rs) of
                           Inl e \<Rightarrow> Inl e
                         | Inr _ \<Rightarrow>
                             if \<not> interpolate
                             then Inr \<lparr>col_dtypes = frame_dtypes df, rows = rs\<rparr>
                             else Inl NotImplementedError)))))"

text \<open>
  The file system as \<open>from_csv\<close> sees it: what a path names. The parsed content of a
  csv file is the engine's \<open>read_csv\<close>.
\<close>

datatype fsentry = Directory | RegularFile

datatype path_arg = NotAPath | Path string string

text \<open>
  \<open>Stats.from_csv\<close>; \<open>Path name suffix\<close> is a path with its \<open>suffix\<close> attribute.
\<close>

definition from_csv ::
  "engine \<Rightarrow> (string \<Rightarrow> bool) \<Rightarrow> clock \<Rightarrow> (string \<rightharpoonup> fsentry) \<Rightarrow> path_arg \<Rightarrow> error + stats" where
  "from_csv E ivid clk fs csv_path =
     (case csv_path of
        NotAPath \<Rightarrow> Inl (TypeError ''csv_path'')
      | Path name suffix \<Rightarrow>
          if fs name = None then Inl (ValueError ''path does not exist'')
          else if fs name \<noteq> Some RegularFile \<or> suffix \<noteq> ''.csv''
          then Inl (ValueError ''path does not point to a .csv file'')
          else (case read_csv E name of
                  Inl e \<Rightarrow> Inl e
                | Inr saved \<Rightarrow> Stats_init E ivid clk (Frame saved) False))"

text \<open>
  The cells of a row in the column order of the frame, and the row with the cell of the
  column at a position replaced.
\<close>

definition row_cells :: "row \<Rightarrow> pyval list" where
  "row_cells r = [video_id r, timestamp r, views r, rating r, likes r, dislikes r]"

definition set_cell :: "nat \<Rightarrow> pyval \<Rightarrow> row \<Rightarrow> row" where
  "set_cell k v r =
     (if k = 0 then r\<lparr>video_id := v\<rparr>
      else if k = 1 then r\<lparr>timestamp := v\<rparr>
      else if k = 2 then r\<lparr>views := v\<rparr>
      else if k = 3 then r\<lparr>rating := v\<rparr>
      else if k = 4 then r\<lparr>likes := v\<rparr>
      else if k = 5 then r\<lparr>dislikes := v\<rparr>
      else r)"

text \<open>\<open>self._data[k]\<close> and \<open>self._data[k] = column\<close> on the row-wise store.\<close>

definition store_column :: "stats \<Rightarrow> nat \<Rightarrow> column" where
  "store_column s k =
     \<lparr>dtype = col_dtypes s ! k, cells = map (\<lambda>lr. row_cells (snd lr) ! k) (rows s)\<rparr>"

definition set_store_column :: "stats \<Rightarrow> nat \<Rightarrow> column \<Rightarrow> stats" where
  "set_store_column s k c =
     \<lparr>col_dtypes = (col_dtypes s)[k := dtype c],
      rows = map (\<lambda>lv. (fst (fst lv), set_cell k (snd lv) (snd (fst lv))))
               (zip (rows s) (cells c))\<rparr>"

text \<open>
  Lines 365 and 366: every column is cast back to the storage type it had before the
  write, one column after the other and in place. A cast that raises ends the loop; the
  columns cast before it stay cast.
\<close>

fun restore_dtypes :: "engine \<Rightarrow> (nat \<times> dtype) list \<Rightarrow> stats \<Rightarrow> stats outcome" where
  "restore_dtypes E [] s = Returned s"
| "restore_dtypes E (kv # kvs) s =
     (case astype E (snd kv) (store_column s (fst kv)) of
        Inl e \<Rightarrow> Raised e s
      | Inr c \<Rightarrow> restore_dtypes E kvs (set_store_column s (fst kv) c))"

text \<open>
  Lines 362 to 367 on any store. Line 364 writes the new row in place at the label
  \<open>len(self._data)\<close>: it overwrites every row that carries the label and appends the row
  when none does; a column that cannot hold its new cell gets the storage type the library
  widens it to. Then come the casts and the sort. \<open>self._data\<close> is rebound by the sort
  only, so a cast or a sort that raises leaves the store with the row written and the rows
  in the order they had.
\<close>

definition write_row :: "engine \<Rightarrow> stats \<Rightarrow> row \<Rightarrow> stats outcome" where
  "write_row E s new =
     (let old_dtypes = col_dtypes s;
          label = int (length (rows s));
          written =
            \<lparr>col_dtypes =
               map (\<lambda>dv. setitem_dtype E (label \<notin> fst ` set (rows s)) (fst dv) (snd dv))
                 (zip old_dtypes (row_cells new)),
             rows = loc_set label new (rows s)\<rparr>
      in case restore_dtypes E (enumerate 0 old_dtypes) written of
           Raised e s' \<Rightarrow> Raised e s'
         | Returned s' \<Rightarrow>
             (case lexsort E (rows s') of
                Inl e \<Rightarrow> Raised e s'
              | Inr rs \<Rightarrow> Returned (s'\<lparr>rows := rs\<rparr>)))"

text \<open>
  \<open>Stats.add_row\<close>. After the checks, lines 354 to 367 write the row at the label
  \<open>len(self._data)\<close>, cast every column back to the storage type it had, and sort. When
  the store is in canonical form and the new values fit the columns, the casts keep every
  value (an integer rating becomes a float, a boolean count an integer) and the sort orders
  the rows by the id string and the naive timestamp: the result is written out. On every
  other store the storage types after the write, the casts and the sort are the library's,
  and the call is \<open>write_row\<close>.
\<close>

definition add_row ::
  "engine \<Rightarrow> (string \<Rightarrow> bool) \<Rightarrow> clock \<Rightarrow> stats \<Rightarrow> pyval \<Rightarrow> pyval \<Rightarrow> pyval \<Rightarrow> pyval \<Rightarrow> pyval
     \<Rightarrow> pyval \<Rightarrow> stats outcome" where
  "add_row E is_video_id clk s vid ts vws rtg lks dls =
     (case add_row_checks is_video_id clk s vid ts vws rtg lks dls of
        Inl e \<Rightarrow> Raised e s
      | Inr (v, t, n, r, l, d) \<Rightarrow>
          (case derive_rating r l d of
             Inl e \<Rightarrow> Raised e s
           | Inr r' \<Rightarrow>
               if store_canonical s \<and> fits_datetime64 t \<and> fits_int64 n
                  \<and> (case l of None \<Rightarrow> True | Some a \<Rightarrow> fits_int64 a)
                  \<and> (case d of None \<Rightarrow> True | Some b \<Rightarrow> fits_int64 b)
               then Returned (s\<lparr>rows :=
                      sort_values
                        (loc_set (int (length (rows s)))
                           \<lparr>video_id = PStr v, timestamp = PDatetime t, views = PInt n,
                            rating = opt_float r', likes = opt_int l, dislikes = opt_int d\<rparr>
                           (rows s))\<rparr>)
               else write_row E s
                      \<lparr>video_id = PStr v, timestamp = PDatetime t, views = PInt n,
                       rating = opt_float r', likes = opt_int l, dislikes = opt_int d\<rparr>))"

text \<open>
  \<open>is_video_id\<close> of \<open>datatube.check\<close>. Modelled from the spec: the module is not among
  the sources; the spec describes the function as the 11-character id format check. The
  functions below take the checker as a parameter; this instance serves the concrete
  evaluations.
\<close>

definition is_video_id :: "string \<Rightarrow> bool" where
  "is_video_id s = (length s = 11)"

text \<open>
  \<open>groupby("video_id")["timestamp"].idxmax()\<close>: for every id, in ascending order of the
  ids, the index label of the first row that carries the greatest timestamp of the group.
\<close>

fun instant_of :: "pyval \<Rightarrow> int" where
  "instant_of (PDatetime d) = utc_us d"
| "instant_of _ = 0"

fun idxmax :: "(int \<times> row) list \<Rightarrow> (int \<times> int) option \<Rightarrow> int option" where
  "idxmax [] best = map_option fst best"
| "idxmax (lr # rs) best =
     idxmax rs
       (case best of
          None \<Rightarrow> Some (fst lr, instant_of (timestamp (snd lr)))
        | Some (l, m) \<Rightarrow>
            if m < instant_of (timestamp (snd lr))
            then Some (fst lr, instant_of (timestamp (snd lr))) else Some (l, m))"

definition groupby_idxmax :: "(int \<times> row) list \<Rightarrow> int list" where
  "groupby_idxmax rs =
     List.map_filter
       (\<lambda>g. idxmax (filter (\<lambda>lr. str_of (video_id (snd lr)) = g) rs) None)
       (sort (remdups (map (\<lambda>lr. str_of (video_id (snd lr))) rs)))"

text \<open>
  \<open>iloc\<close>: the rows at the given positions; a negative position counts from the end, a
  position outside the frame raises IndexError.
\<close>

fun iloc :: "(int \<times> row) list \<Rightarrow> int list \<Rightarrow> error + (int \<times> row) list" where
  "iloc rs [] = Inr []"
| "iloc rs (p # ps) =
     (let n = int (length rs) in
      if p < - n \<or> n \<le> p then Inl (IndexError ''positional indexer is out-of-bounds'')
      else case iloc rs ps of
             Inl e \<Rightarrow> Inl e
           | Inr xs \<Rightarrow> Inr (rs ! nat (if p < 0 then p + n else p) # xs))"

text \<open>
  \<open>Stats.most_recent\<close>: the labels that \<open>idxmax\<close> returns are handed to \<open>iloc\<close>, which
  reads them as positions. The dictionary of \<open>set_index("video_id").T.to_dict()\<close> is an
  association list in insertion order: the id and the row it maps to.
\<close>

definition most_recent :: "stats \<Rightarrow> error + (pyval \<times> row) list" where
  "most_recent s =
     (case iloc (rows s) (groupby_idxmax (rows s)) of
        Inl e \<Rightarrow> Inl e
      | Inr picked \<Rightarrow>
          Inr (fold (\<lambda>lr d. AList.update (video_id (snd lr)) (snd lr) d) picked []))"

section \<open>\<open>stats.py\<close>: the stores a caller can obtain\<close>

text \<open>
  The stores reachable through the public operations: the constructor (with or without a
  dataset), \<open>from_csv\<close>, and \<open>add_row\<close>, whether it returns or raises, with the store
  it leaves in either case. The clock may read anything at each call.
\<close>

inductive reachable :: "engine \<Rightarrow> (string \<Rightarrow> bool) \<Rightarrow> stats \<Rightarrow> bool"
  for E :: engine and ivid :: "string \<Rightarrow> bool" where
  constructed: "Stats_init E ivid clk data interpolate = Inr s \<Longrightarrow> reachable E ivid s"
| loaded: "from_csv E ivid clk fs csv_path = Inr s \<Longrightarrow> reachable E ivid s"
| added: "reachable E ivid s \<Longrightarrow>
          add_row E ivid clk s vid ts vws rtg lks dls = Returned s' \<Longrightarrow> reachable E ivid s'"
| rejected: "reachable E ivid s \<Longrightarrow>
          add_row E ivid clk s vid ts vws rtg lks dls = Raised e s' \<Longrightarrow> reachable E ivid s'"

text \<open>Ascending by (\<open>video_id\<close>, \<open>timestamp\<close>).\<close>

definition sorted_rows :: "stats \<Rightarrow> bool" where
  "sorted_rows s = sorted (map (\<lambda>lr. sort_by (snd lr)) (rows s))"

text \<open>
  The invariant behind the two properties: the keys are unique, and a store in canonical
  form has no index label twice (so that \<open>loc\<close> overwrites at most one row).
\<close>

definition store_inv :: "stats \<Rightarrow> bool" where
  "store_inv s = (unique_rows s \<and> (store_canonical s \<longrightarrow> distinct (map fst (rows s))))"

section \<open>Concrete values for the evaluations\<close>

text \<open>
  The cells within the range of a storage type of 64 bits, and what a column of a storage
  type holds without a change of the type.
\<close>

fun in_range :: "dtype \<Rightarrow> pyval \<Rightarrow> bool" where
  "in_range (D_int nullable) (PInt i) = fits_int64 i"
| "in_range (D_datetime64 tz) (PDatetime t) = fits_datetime64 t"
| "in_range d v = True"

fun holds :: "dtype \<Rightarrow> pyval \<Rightarrow> bool" where
  "holds D_object v = True"
| "holds D_string (PStr x) = True"
| "holds (D_int nullable) (PInt i) = fits_int64 i"
| "holds (D_int nullable) PNone = nullable"
| "holds (D_float nullable) (PFloat q) = True"
| "holds (D_float nullable) (PInt i) = True"
| "holds (D_float nullable) PNone = True"
| "holds (D_bool nullable) (PBool b) = True"
| "holds (D_bool nullable) PNone = nullable"
| "holds (D_datetime64 tz) (PDatetime t) =
     (((tz = None) = (tzinfo t = None)) \<and> fits_datetime64 t)"
| "holds (D_datetime64 tz) PNone = True"
| "holds D_timedelta64 (PTimedelta x) = True"
| "holds D_timedelta64 PNone = True"
| "holds d v = False"

text \<open>
  The cell a cast leaves: a cast to a timezone-aware datetime type reads a naive timestamp
  as a wall time of that timezone; every other cell is kept.
\<close>

fun cast_cell :: "dtype \<Rightarrow> pyval \<Rightarrow> pyval" where
  "cast_cell (D_datetime64 (Some off)) (PDatetime t) =
     PDatetime (if tzinfo t = None then t\<lparr>tzinfo := Some off\<rparr> else t)"
| "cast_cell d v = v"

fun is_aware_ts :: "pyval \<Rightarrow> bool" where
  "is_aware_ts (PDatetime d) = (tzinfo d \<noteq> None)"
| "is_aware_ts _ = False"

text \<open>
  An engine for the concrete evaluations: narrowing keeps a column, and a cast changes the
  storage type and keeps the cells, except that it attaches the timezone of an aware
  datetime type to a naive timestamp and raises on an integer or a timestamp outside the
  range of the type (OverflowError and OutOfBoundsDatetime, which is a ValueError). The
  library does the same on the columns used below. A write widens a column that cannot
  hold the new cell to \<open>object\<close>; the sort orders the rows by the id and the instant of
  the timestamp, and raises the TypeError of the comparison when naive and aware
  timestamps meet.
\<close>

definition example_engine :: engine where
  "example_engine =
     \<lparr>convert_dtypes = (\<lambda>c. Some c),
      astype =
        (\<lambda>d c. if list_all (in_range d) (cells c)
                then Inr (c\<lparr>dtype := d, cells := map (cast_cell d) (cells c)\<rparr>)
                else Inl (ValueError ''out of bounds'')),
      empty_dtype = D_object,
      read_csv = (\<lambda>n. Inl (ValueError ''no such file'')),
      setitem_dtype = (\<lambda>enlarged d v. if holds d v then d else D_object),
      lexsort =
        (\<lambda>rs. if list_all (\<lambda>lr. is_naive_ts (timestamp (snd lr))) rs
                  \<or> list_all (\<lambda>lr. is_aware_ts (timestamp (snd lr))) rs
               then Inr (sort_key (\<lambda>lr. (str_of (video_id (snd lr)),
                                          instant_of (timestamp (snd lr)))) rs)
               else Inl (TypeError ''compare offset-naive and offset-aware datetimes''))\<rparr>"

text \<open>Noon of a day, naive and in UTC; a clock at midnight of 1 January 2022.\<close>

definition naive_noon :: "nat \<Rightarrow> nat \<Rightarrow> nat \<Rightarrow> datetime" where
  "naive_noon y m d =
     \<lparr>year = y, month = m, day = d, hour = 12, minute = 0, second = 0, microsecond = 0,
      tzinfo = None\<rparr>"

definition utc_noon :: "nat \<Rightarrow> nat \<Rightarrow> nat \<Rightarrow> datetime" where
  "utc_noon y m d =
     \<lparr>year = y, month = m, day = d, hour = 12, minute = 0, second = 0, microsecond = 0,
      tzinfo = Some 0\<rparr>"

definition example_clock :: clock where
  "example_clock =
     \<lparr>local_time = \<lparr>year = 2022, month = 1, day = 1, hour = 0, minute = 0, second = 0,
                     microsecond = 0, tzinfo = None\<rparr>,
      utc_time = \<lparr>year = 2022, month = 1, day = 1, hour = 0, minute = 0, second = 0,
                   microsecond = 0, tzinfo = None\<rparr>\<rparr>"

definition empty_store :: stats where
  "empty_store = \<lparr>col_dtypes = canonical_dtypes, rows = []\<rparr>"

text \<open>A sample of the video \<open>"12345678901"\<close> with no rating and no counts.\<close>

definition sample :: "datetime \<Rightarrow> int \<Rightarrow> row" where
  "sample t n =
     \<lparr>video_id = PStr ''12345678901'', timestamp = PDatetime t, views = PInt n,
      rating = PNone, likes = PNone, dislikes = PNone\<rparr>"

text \<open>A dataset of one row, with a timezone-aware timestamp column.\<close>

definition example_frame :: "datetime \<Rightarrow> dataframe" where
  "example_frame t =
     \<lparr>index = [0],
      columns =
        [(''video_id'', \<lparr>dtype = D_string, cells = [PStr ''12345678901'']\<rparr>),
         (''timestamp'', \<lparr>dtype = D_datetime64 (Some 0), cells = [PDatetime t]\<rparr>),
         (''views'', \<lparr>dtype = D_int True, cells = [PInt 100]\<rparr>),
         (''rating'', \<lparr>dtype = D_float True, cells = [PFloat (9 / 2)]\<rparr>),
         (''likes'', \<lparr>dtype = D_int True, cells = [PInt 80]\<rparr>),
         (''dislikes'', \<lparr>dtype = D_int True, cells = [PInt 20]\<rparr>)]\<rparr>"

definition example_row :: "datetime \<Rightarrow> row" where
  "example_row t =
     \<lparr>video_id = PStr ''12345678901'', timestamp = PDatetime t, views = PInt 100,
      rating = PFloat (9 / 2), likes = PInt 80, dislikes = PInt 20\<rparr>"

definition frame_dtypes_example :: "dtype list" where
  "frame_dtypes_example =
     [D_string, D_datetime64 (Some 0), D_int True, D_float True, D_int True, D_int True]"

text \<open>
  A dataset of two samples of one video whose rows carry the same index label 2, as the
  rows labelled 2 of two daily frames put together by \<open>concat\<close> do; and the store
  that \<open>Stats.__init__\<close> builds from it.
\<close>

definition twin_frame :: dataframe where
  "twin_frame =
     \<lparr>index = [2, 2],
      columns =
        [(''video_id'', \<lparr>dtype = D_string,
                          cells = [PStr ''12345678901'', PStr ''12345678901'']\<rparr>),
         (''timestamp'', \<lparr>dtype = D_datetime64 (Some 0),
                           cells = [PDatetime (utc_noon 2021 6 1),
                                    PDatetime (utc_noon 2021 6 2)]\<rparr>),
         (''views'', \<lparr>dtype = D_int True, cells = [PInt 100, PInt 100]\<rparr>),
         (''rating'', \<lparr>dtype = D_float True, cells = [PFloat (9 / 2), PFloat (9 / 2)]\<rparr>),
         (''likes'', \<lparr>dtype = D_int True, cells = [PInt 80, PInt 80]\<rparr>),
         (''dislikes'', \<lparr>dtype = D_int True, cells = [PInt 20, PInt 20]\<rparr>)]\<rparr>"

definition twin_store :: stats where
  "twin_store =
     \<lparr>col_dtypes = frame_dtypes_example,
      rows = [(2, example_row (utc_noon 2021 6 1)), (2, example_row (utc_noon 2021 6 2))]\<rparr>"

text \<open>A dataset with the one column \<open>views\<close>, of the given storage type.\<close>

definition views_frame :: "dtype \<Rightarrow> dataframe" where
  "views_frame d = \<lparr>index = [0], columns = [(''views'', \<lparr>dtype = d, cells = [PInt 1]\<rparr>)]\<rparr>"

section \<open>\<open>info.py\<close>: \<open>PropertyDict\<close> and \<open>ChannelInfo.HtmlDict\<close>\<close>
















section \<open>\<open>info.py\<close>: \<open>ChannelInfo\<close>\<close>










section \<open>\<open>info.py\<close>: \<open>VideoInfo\<close>\<close>




























section \<open>\<open>info.py\<close>: \<open>ChannelInfo.to_json\<close> and \<open>ChannelInfo.from_json\<close>\<close>































section \<open>Verified properties of \<open>stats.py\<close>\<close>

subsection \<open>\<open>add_row\<close> and timezone-aware timestamps\<close>

lemma py_gt_aware_now:
  "tzinfo t \<noteq> None \<Longrightarrow>
   py_gt t (datetime_now clk) = Inl (TypeError ''compare offset-naive and offset-aware datetimes'')"
  by (auto simp: py_gt_def py_lt_def datetime_now_def)

lemma add_row_checks_aware:
  "tzinfo t \<noteq> None \<Longrightarrow>
   add_row_checks ivid clk s vid (PDatetime t) vws rtg lks dls =
     Inl (case vid of
            PStr v \<Rightarrow> if ivid v then TypeError ''compare offset-naive and offset-aware datetimes''
                      else ValueError ''video_id''
          | _ \<Rightarrow> TypeError ''video_id'')"
  by (cases vid) (simp_all add: add_row_checks_def py_gt_aware_now)

lemma add_row_aware_valid_id:
  "tzinfo t \<noteq> None \<Longrightarrow> ivid v \<Longrightarrow>
   add_row E ivid clk s (PStr v) (PDatetime t) vws rtg lks dls =
     Raised (TypeError ''compare offset-naive and offset-aware datetimes'') s"
  by (simp add: add_row_def add_row_checks_aware)

text \<open>
  Claim C1, at its own example: \<open>add_row("12345678901", now_utc, 100, likes=80,
  dislikes=20)\<close>, with \<open>now_utc = datetime.now(timezone.utc)\<close>, on any store and at any
  clock reading. The call does not store a row with rating 4.0: line 309 compares the aware
  timestamp with the naive \<open>datetime.now()\<close>, which raises TypeError, and the store is
  left as it was.
\<close>

theorem add_row_example_raises:
  "add_row E is_video_id clk s (PStr ''12345678901'') (PDatetime (datetime_now_utc clk))
     (PInt 100) PNone (PInt 80) (PInt 20)
   = Raised (TypeError ''compare offset-naive and offset-aware datetimes'') s"
  by (simp add: add_row_def add_row_checks_aware datetime_now_utc_def is_video_id_def)

text \<open>
  Claim C10, as amended: for every timezone-aware timestamp, \<open>add_row\<close> raises and leaves
  the store as it was, whatever the other arguments are; no such sample is ever inserted.
  The exception is the TypeError of the comparison with \<open>datetime.now()\<close> whenever the
  \<open>video_id\<close> argument has passed its two checks, which come first; otherwise it is the
  TypeError or ValueError of those checks.
\<close>

theorem add_row_aware_timestamp:
  "tzinfo t \<noteq> None \<Longrightarrow>
   add_row E ivid clk s vid (PDatetime t) vws rtg lks dls =
     Raised (case vid of
               PStr v \<Rightarrow> if ivid v then TypeError ''compare offset-naive and offset-aware datetimes''
                         else ValueError ''video_id''
             | _ \<Rightarrow> TypeError ''video_id'') s"
  by (simp add: add_row_def add_row_checks_aware)

theorem add_row_aware_timestamp_witness:
  "tzinfo \<lparr>year = 2021, month = 6, day = 1, hour = 12, minute = 0, second = 0,
           microsecond = 0, tzinfo = Some 0\<rparr> \<noteq> None \<and>
   add_row example_engine is_video_id
     \<lparr>local_time = \<lparr>year = 2022, month = 1, day = 1, hour = 0, minute = 0, second = 0,
                     microsecond = 0, tzinfo = None\<rparr>,
      utc_time = \<lparr>year = 2022, month = 1, day = 1, hour = 0, minute = 0, second = 0,
                   microsecond = 0, tzinfo = None\<rparr>\<rparr>
     \<lparr>col_dtypes = canonical_dtypes, rows = []\<rparr>
     (PStr ''abcdefghijk'')
     (PDatetime \<lparr>year = 2021, month = 6, day = 1, hour = 12, minute = 0, second = 0,
                 microsecond = 0, tzinfo = Some 0\<rparr>)
     (PInt 7) PNone PNone PNone
   = Raised (TypeError ''compare offset-naive and offset-aware datetimes'')
       \<lparr>col_dtypes = canonical_dtypes, rows = []\<rparr>"
proof -
  let ?t = "\<lparr>year = 2021, month = 6, day = 1, hour = 12, minute = 0, second = 0,
             microsecond = 0, tzinfo = Some (0::int)\<rparr>"
  have aware: "tzinfo ?t \<noteq> None"
    by simp
  show ?thesis
    using aware add_row_aware_timestamp [OF aware, of example_engine is_video_id _ _ "PStr ''abcdefghijk''"]
    by (simp add: is_video_id_def)
qed

text \<open>
  Claim C10 as it is stated fails: with an aware timestamp and the id \<open>"abc"\<close>, which is
  not a video id, the call raises the ValueError of line 300, not a TypeError.
\<close>

theorem add_row_aware_timestamp_counterexample:
  "\<not> (\<forall>E ivid clk s vid t vws rtg lks dls. tzinfo t \<noteq> None \<longrightarrow>
        (\<exists>m. add_row E ivid clk s vid (PDatetime t) vws rtg lks dls = Raised (TypeError m) s))"
proof
  let ?t = "\<lparr>year = 2021, month = 6, day = 1, hour = 12, minute = 0, second = 0,
             microsecond = 0, tzinfo = Some 0\<rparr>"
  let ?s = "\<lparr>col_dtypes = canonical_dtypes, rows = []\<rparr>"
  assume a: "\<forall>E ivid clk s vid t vws rtg lks dls. tzinfo t \<noteq> None \<longrightarrow>
        (\<exists>m. add_row E ivid clk s vid (PDatetime t) vws rtg lks dls = Raised (TypeError m) s)"
  have "tzinfo ?t \<noteq> None" by simp
  with a obtain m where
    "add_row example_engine is_video_id \<lparr>local_time = ?t, utc_time = ?t\<rparr> ?s (PStr ''abc'')
       (PDatetime ?t) (PInt 100) PNone PNone PNone = Raised (TypeError m) ?s"
    by blast
  then show False
    by (simp add: add_row_def add_row_checks_def is_video_id_def)
qed

subsection \<open>Evaluating the concrete calls\<close>

lemmas eval_time =
  wall_us_def utc_us_def toordinal_def days_before_year_def days_before_month_def is_leap_def
  naive_noon_def utc_noon_def example_clock_def datetime_now_def datetime_now_utc_def
  py_gt_def py_lt_def

lemmas eval_add_row =
  add_row_def add_row_checks_def check_count_def derive_rating_def store_canonical_def
  canonical_dtypes_def fits_int64_def fits_datetime64_def loc_set_def sort_values_def
  sort_by_def is_video_id_def sample_def empty_store_def less_eq_prod_def

lemmas eval_init =
  Stats_init_def coerce_dtypes_def coerce_column_def expected_kwargs_def expected_columns_def
  empty_frame_def example_engine_def check_column_def check_one_def narrowed_def
  frame_dtypes_def frame_rows_def getcol_def canonical_dtypes_def dropna_def row_key_def
  example_frame_def example_row_def frame_dtypes_example_def is_video_id_def

lemma init_empty:
  "Stats_init example_engine is_video_id example_clock NoData False = Inr empty_store"
  by (simp add: eval_init empty_store_def)

lemma init_frame:
  "Stats_init example_engine is_video_id example_clock (Frame (example_frame (utc_noon y m d)))
     False
   = Inr \<lparr>col_dtypes = frame_dtypes_example, rows = [(0, example_row (utc_noon y m d))]\<rparr>"
  by (simp add: eval_init eval_time)

lemma add_first:
  "add_row E is_video_id example_clock empty_store
     (PStr ''12345678901'') (PDatetime (naive_noon 2021 6 2)) (PInt 200) PNone PNone PNone
   = Returned \<lparr>col_dtypes = canonical_dtypes, rows = [(0, sample (naive_noon 2021 6 2) 200)]\<rparr>"
  by (simp add: eval_add_row eval_time)

lemma add_second:
  "add_row E is_video_id example_clock
     \<lparr>col_dtypes = canonical_dtypes, rows = [(0, sample (naive_noon 2021 6 2) 200)]\<rparr>
     (PStr ''12345678901'') (PDatetime (naive_noon 2021 6 1)) (PInt 100) PNone PNone PNone
   = Returned \<lparr>col_dtypes = canonical_dtypes,
               rows = [(1, sample (naive_noon 2021 6 1) 100),
                       (0, sample (naive_noon 2021 6 2) 200)]\<rparr>"
  by (simp add: eval_add_row eval_time)

lemma most_recent_two:
  "most_recent \<lparr>col_dtypes = canonical_dtypes,
                rows = [(1, sample (naive_noon 2021 6 1) 100),
                        (0, sample (naive_noon 2021 6 2) 200)]\<rparr>
   = Inr [(PStr ''12345678901'', sample (naive_noon 2021 6 1) 100)]"
  by (simp add: most_recent_def groupby_idxmax_def List.map_filter_def sample_def eval_time)

subsection \<open>Rejected calls leave the store alone\<close>

lemma add_row_rejected:
  "add_row_checks ivid clk s vid ts vws rtg lks dls = Inl e \<Longrightarrow>
   add_row E ivid clk s vid ts vws rtg lks dls = Raised e s"
  by (simp add: add_row_def)

text \<open>
  A duplicate of a stored pair with a naive timestamp, passed with arguments of the
  annotated types, raises a ValueError (that of the duplicate check or of an earlier range
  check) and the store is as before.
\<close>

lemma add_row_duplicate_naive:
  assumes "list_ex (\<lambda>lr. cell_key (video_id (snd lr)) = cell_key (PStr v)
                        \<and> cell_key (timestamp (snd lr)) = cell_key (PDatetime t)) (rows s)"
    and "tzinfo t = None" and "as_int vws \<noteq> None" and "rtg = PNone \<or> as_number rtg \<noteq> None"
    and "lks = PNone \<or> as_int lks \<noteq> None" and "dls = PNone \<or> as_int dls \<noteq> None"
  shows "\<exists>m. add_row E ivid clk s (PStr v) (PDatetime t) vws rtg lks dls = Raised (ValueError m) s"
  using assms
  by (auto simp: add_row_def add_row_checks_def check_count_def py_gt_def py_lt_def
                 datetime_now_def
           split: sum.splits bool.splits option.splits if_splits)

text \<open>
  Claim C5, at a failing input. The store is built from a dataset of one row whose
  timestamp is timezone-aware, as \<open>Stats.__init__\<close> demands; \<open>add_row\<close> is then called
  with the same id and the same timestamp. The store is unchanged, as the claim says, but
  the exception is the TypeError of line 309, not the ValueError of the duplicate check,
  which is never reached.
\<close>

theorem add_row_duplicate_aware:
  "Stats_init example_engine is_video_id example_clock
     (Frame (example_frame (utc_noon 2021 6 1))) False
   = Inr \<lparr>col_dtypes = frame_dtypes_example, rows = [(0, example_row (utc_noon 2021 6 1))]\<rparr>
   \<and> add_row E is_video_id example_clock
       \<lparr>col_dtypes = frame_dtypes_example, rows = [(0, example_row (utc_noon 2021 6 1))]\<rparr>
       (PStr ''12345678901'') (PDatetime (utc_noon 2021 6 1)) (PInt 100) PNone PNone PNone
     = Raised (TypeError ''compare offset-naive and offset-aware datetimes'')
         \<lparr>col_dtypes = frame_dtypes_example, rows = [(0, example_row (utc_noon 2021 6 1))]\<rparr>"
proof (rule conjI)
  show "Stats_init example_engine is_video_id example_clock
     (Frame (example_frame (utc_noon 2021 6 1))) False
   = Inr \<lparr>col_dtypes = frame_dtypes_example, rows = [(0, example_row (utc_noon 2021 6 1))]\<rparr>"
    by (rule init_frame)
next
  have aware: "tzinfo (utc_noon 2021 6 1) \<noteq> None"
    by (simp add: utc_noon_def)
  show "add_row E is_video_id example_clock
       \<lparr>col_dtypes = frame_dtypes_example, rows = [(0, example_row (utc_noon 2021 6 1))]\<rparr>
       (PStr ''12345678901'') (PDatetime (utc_noon 2021 6 1)) (PInt 100) PNone PNone PNone
     = Raised (TypeError ''compare offset-naive and offset-aware datetimes'')
         \<lparr>col_dtypes = frame_dtypes_example, rows = [(0, example_row (utc_noon 2021 6 1))]\<rparr>"
    by (rule add_row_aware_valid_id [OF aware]) (simp add: is_video_id_def)
qed

subsection \<open>Unique and sorted rows\<close>

lemma set_drop_duplicates: "set (drop_duplicates xs) \<subseteq> set xs"
  by (induction xs rule: drop_duplicates.induct) auto

lemma distinct_drop_duplicates:
  "distinct (map (\<lambda>lr. row_key (snd lr)) (drop_duplicates xs))"
proof (induction xs rule: drop_duplicates.induct)
  case 1
  show ?case by simp
next
  case (2 x xs)
  have "row_key (snd x) \<notin> (\<lambda>lr. row_key (snd lr)) `
          set (drop_duplicates (filter (\<lambda>y. row_key (snd y) \<noteq> row_key (snd x)) xs))"
    using set_drop_duplicates [of "filter (\<lambda>y. row_key (snd y) \<noteq> row_key (snd x)) xs"]
    by auto
  with 2 show ?case by simp
qed

lemma coerce_column_index:
  "coerce_column E data r na = Inr r' \<Longrightarrow> index r' = index r"
  unfolding coerce_column_def
  by (auto split: sum.splits bool.splits option.splits tsarg.splits)

lemma coerce_loop_index:
  "coerce_loop E data r kw = Inr r' \<Longrightarrow> index r' = index r"
proof (induction kw arbitrary: r)
  case Nil
  then show ?case by simp
next
  case (Cons na kw)
  then show ?case
    by (cases "coerce_column E data r na") (auto dest: coerce_column_index)
qed

lemma frame_rows_no_index: "index df = [] \<Longrightarrow> frame_rows df = []"
  by (simp add: frame_rows_def)

lemma apply_check_all:
  "apply_check f vs = Inr u \<Longrightarrow> v \<in> set vs \<Longrightarrow> f v = Inr ()"
  by (induction vs) (auto split: sum.splits)

lemma check_timestamp_aware:
  "check_timestamp clk v = Inr u \<Longrightarrow> \<not> is_naive_ts v"
  by (cases v) (auto split: if_splits)

text \<open>
  The constructor yields unique keys; a store it builds from a dataset is in canonical form
  only when it has no rows, since every timestamp it accepts is aware.
\<close>

lemma Stats_init_inv:
  assumes "Stats_init E ivid clk data interpolate = Inr s"
  shows "store_inv s"
proof (cases data)
  case NoData
  with assms obtain df where df: "coerce_dtypes E (empty_frame E) expected_kwargs = Inr df"
    and s: "s = \<lparr>col_dtypes = frame_dtypes df, rows = frame_rows df\<rparr>"
    by (auto simp: Stats_init_def split: sum.splits)
  from df have "index df = []"
    by (auto simp: coerce_dtypes_def empty_frame_def split: if_splits dest: coerce_loop_index)
  then have "rows s = []" using s by (simp add: frame_rows_no_index)
  then show ?thesis by (simp add: store_inv_def unique_rows_def)
next
  case NotAFrame
  with assms show ?thesis by (simp add: Stats_init_def)
next
  case (Frame df0)
  from assms Frame obtain u1 where c1: "check_columns E df0 expected_columns = Inr u1"
    by (cases "check_columns E df0 expected_columns")
       (simp_all add: Stats_init_def split: if_splits)
  from assms Frame c1 obtain df where c2: "coerce_dtypes E df0 expected_kwargs = Inr df"
    by (cases "coerce_dtypes E df0 expected_kwargs")
       (simp_all add: Stats_init_def split: if_splits)
  define rs where "rs = drop_duplicates (dropna (frame_rows df))"
  from assms Frame c1 c2 obtain u3 where
    c3: "apply_check (check_video_id ivid) (map (\<lambda>lr. video_id (snd lr)) rs) = Inr u3"
    by (cases "apply_check (check_video_id ivid) (map (\<lambda>lr. video_id (snd lr)) rs)")
       (simp_all add: Stats_init_def rs_def split: if_splits)
  from assms Frame c1 c2 c3 obtain u4 where
    ts: "apply_check (check_timestamp clk) (map (\<lambda>lr. timestamp (snd lr)) rs) = Inr u4"
    by (cases "apply_check (check_timestamp clk) (map (\<lambda>lr. timestamp (snd lr)) rs)")
       (simp_all add: Stats_init_def rs_def split: if_splits)
  from assms Frame c1 c2 c3 ts have s: "s = \<lparr>col_dtypes = frame_dtypes df, rows = rs\<rparr>"
    by (simp add: Stats_init_def rs_def split: if_splits)
  have u: "unique_rows s"
    using s by (simp add: unique_rows_def rs_def distinct_drop_duplicates)
  have "rows s = []" if c: "store_canonical s"
  proof (rule ccontr)
    assume "rows s \<noteq> []"
    then obtain lr where lr: "lr \<in> set (rows s)" by (cases "rows s") auto
    with s have "timestamp (snd lr) \<in> set (map (\<lambda>lr. timestamp (snd lr)) rs)" by simp
    with ts have "check_timestamp clk (timestamp (snd lr)) = Inr ()"
      by (rule apply_check_all)
    then have "\<not> is_naive_ts (timestamp (snd lr))" by (rule check_timestamp_aware)
    moreover from c lr have "is_naive_ts (timestamp (snd lr))"
      by (auto simp: store_canonical_def list_all_iff)
    ultimately show False by simp
  qed
  with u show ?thesis by (auto simp: store_inv_def)
qed

lemma from_csv_Stats_init:
  "from_csv E ivid clk fs p = Inr s \<Longrightarrow>
   \<exists>saved. Stats_init E ivid clk (Frame saved) False = Inr s"
  by (cases p) (auto simp: from_csv_def split: if_splits sum.splits)

lemma from_csv_inv: "from_csv E ivid clk fs p = Inr s \<Longrightarrow> store_inv s"
  using from_csv_Stats_init Stats_init_inv by blast

lemma add_row_checks_Inr:
  assumes "add_row_checks ivid clk s vid ts vws rtg lks dls = Inr (v, t, n, r, l, d)"
  shows "vid = PStr v" and "ts = PDatetime t" and "py_gt t (datetime_now clk) = Inr False"
    and "\<not> list_ex (\<lambda>lr. cell_key (video_id (snd lr)) = cell_key vid
                        \<and> cell_key (timestamp (snd lr)) = cell_key ts) (rows s)"
proof -
  from assms obtain v' where v': "vid = PStr v'"
    by (cases vid) (simp_all add: add_row_checks_def)
  from assms v' obtain t' where t': "ts = PDatetime t'"
    by (cases ts) (simp_all add: add_row_checks_def split: if_splits)
  from assms v' t' show "vid = PStr v" and "ts = PDatetime t"
    and "py_gt t (datetime_now clk) = Inr False"
    and "\<not> list_ex (\<lambda>lr. cell_key (video_id (snd lr)) = cell_key vid
                        \<and> cell_key (timestamp (snd lr)) = cell_key ts) (rows s)"
    by (simp_all add: add_row_checks_def
             split: if_splits sum.splits bool.splits option.splits)
qed

lemma py_gt_now_naive: "py_gt t (datetime_now clk) = Inr b \<Longrightarrow> tzinfo t = None"
  by (auto simp: py_gt_def py_lt_def datetime_now_def split: option.splits)

lemma overwrite_labels:
  "map (\<lambda>lr. fst (if fst lr = l then (l, r) else lr)) rs = map fst rs"
  by (induction rs) auto

lemma loc_set_labels:
  assumes "distinct (map fst rs)"
  shows "distinct (map fst (loc_set l r rs))"
proof (cases "l \<in> fst ` set rs")
  case True
  then have "map fst (loc_set l r rs) = map (\<lambda>lr. fst (if fst lr = l then (l, r) else lr)) rs"
    by (simp add: loc_set_def o_def)
  with assms show ?thesis by (simp only: overwrite_labels)
next
  case False
  with assms show ?thesis by (auto simp: loc_set_def)
qed

text \<open>
  Overwriting the one row that carries a label with a row whose key is new keeps the keys
  distinct.
\<close>

lemma overwrite_keys:
  "distinct (map fst rs) \<Longrightarrow> distinct (map (\<lambda>lr. row_key (snd lr)) rs) \<Longrightarrow>
   row_key r \<notin> (\<lambda>lr. row_key (snd lr)) ` set rs \<Longrightarrow>
   distinct (map (\<lambda>lr. row_key (snd (if fst lr = l then (l, r) else lr))) rs)"
proof (induction rs)
  case Nil
  show ?case by simp
next
  case (Cons x xs)
  let ?g = "\<lambda>lr. row_key (snd (if fst lr = l then (l, r) else lr))"
  have sub: "?g y = row_key r \<or> ?g y = row_key (snd y)" for y
    by simp
  from Cons have ih: "distinct (map ?g xs)" by simp
  show ?case
  proof (cases "fst x = l")
    case True
    with Cons.prems have "l \<notin> fst ` set xs" by auto
    then have same: "map ?g xs = map (\<lambda>lr. row_key (snd lr)) xs"
      by (induction xs) auto
    from same have img: "?g ` set xs = (\<lambda>lr. row_key (snd lr)) ` set xs"
      by (metis set_map)
    from Cons.prems have "row_key r \<notin> (\<lambda>lr. row_key (snd lr)) ` set xs" by simp
    then have "row_key r \<notin> ?g ` set xs" using img by blast
    with True ih show ?thesis by simp
  next
    case False
    from Cons.prems have "row_key (snd x) \<noteq> row_key r" by auto
    moreover from Cons.prems have "row_key (snd x) \<notin> (\<lambda>lr. row_key (snd lr)) ` set xs"
      by auto
    ultimately have "row_key (snd x) \<notin> ?g ` set xs"
      using sub by (metis (no_types, lifting) image_iff)
    with ih False show ?thesis by simp
  qed
qed

lemma loc_set_keys:
  assumes "distinct (map fst rs)" and "distinct (map (\<lambda>lr. row_key (snd lr)) rs)"
    and "row_key r \<notin> (\<lambda>lr. row_key (snd lr)) ` set rs"
  shows "distinct (map (\<lambda>lr. row_key (snd lr)) (loc_set l r rs))"
proof (cases "l \<in> fst ` set rs")
  case True
  with overwrite_keys [OF assms, of l] show ?thesis by (simp add: loc_set_def o_def)
next
  case False
  with assms show ?thesis by (auto simp: loc_set_def)
qed

lemma set_loc_set: "set (loc_set l r rs) \<subseteq> insert (l, r) (set rs)"
  by (auto simp: loc_set_def)

lemma distinct_map_sort_key:
  "distinct (map g (sort_key f xs)) = distinct (map g xs)"
proof -
  have "mset (map g (sort_key f xs)) = mset (map g xs)" by simp
  then show ?thesis by (rule mset_eq_imp_distinct_iff)
qed

text \<open>
  On a store in canonical form whose labels are distinct, a call of \<open>add_row\<close> that
  passes the checks with values that fit the columns returns, keeps the keys unique and
  leaves the rows sorted. These are the stores grown from \<open>Stats()\<close> by such calls.
\<close>

lemma add_row_canonical:
  assumes chk: "add_row_checks ivid clk s vid ts vws rtg lks dls = Inr (v, t, n, r, l, d)"
    and dr: "derive_rating r l d = Inr r'"
    and can: "store_canonical s"
    and fit: "fits_datetime64 t" "fits_int64 n"
      "case l of None \<Rightarrow> True | Some a \<Rightarrow> fits_int64 a"
      "case d of None \<Rightarrow> True | Some b \<Rightarrow> fits_int64 b"
    and i: "store_inv s"
  shows "\<exists>s'. add_row E ivid clk s vid ts vws rtg lks dls = Returned s'
           \<and> store_inv s' \<and> store_canonical s' \<and> sorted_rows s'"
proof -
  define new where "new = \<lparr>video_id = PStr v, timestamp = PDatetime t, views = PInt n,
      rating = opt_float r', likes = opt_int l, dislikes = opt_int d\<rparr>"
  define s' where "s' = s\<lparr>rows := sort_values (loc_set (int (length (rows s))) new (rows s))\<rparr>"
  from chk dr can fit have ret: "add_row E ivid clk s vid ts vws rtg lks dls = Returned s'"
    by (simp add: add_row_def s'_def new_def)
  note vid = add_row_checks_Inr(1) [OF chk] and ts = add_row_checks_Inr(2) [OF chk]
    and gt = add_row_checks_Inr(3) [OF chk] and nodup = add_row_checks_Inr(4) [OF chk]
  from gt have naive: "tzinfo t = None" by (rule py_gt_now_naive)
  from nodup vid ts have fresh: "row_key new \<notin> (\<lambda>lr. row_key (snd lr)) ` set (rows s)"
    by (auto simp: list_ex_iff row_key_def new_def)
  from i can have lab: "distinct (map fst (rows s))"
    and keys: "distinct (map (\<lambda>lr. row_key (snd lr)) (rows s))"
    by (simp_all add: store_inv_def unique_rows_def)
  have u': "unique_rows s'"
    using loc_set_keys [OF lab keys fresh]
    by (simp add: s'_def unique_rows_def sort_values_def distinct_map_sort_key)
  have lab': "distinct (map fst (rows s'))"
    using loc_set_labels [OF lab]
    by (simp add: s'_def sort_values_def distinct_map_sort_key)
  have "set (rows s') \<subseteq> insert (int (length (rows s)), new) (set (rows s))"
    using set_loc_set [of "int (length (rows s))" new "rows s"]
    by (simp add: s'_def sort_values_def)
  with can naive have can': "store_canonical s'"
    by (auto simp: s'_def store_canonical_def list_all_iff new_def)
  have "sorted_rows s'"
    by (simp add: s'_def sorted_rows_def sort_values_def)
  with u' lab' can' ret show ?thesis by (simp add: store_inv_def)
qed

subsection \<open>Two rows under one label\<close>

text \<open>
  Whatever the casts and the sort do, two equal rows stay equal: a cast converts a column
  cell by cell, and a sort only reorders the rows.
\<close>

lemma restore_dtypes_twins:
  assumes cast: "\<forall>d c c'. astype E d c = Inr c' \<longrightarrow> (\<exists>f. cells c' = map f (cells c))"
  shows "rows s = [(l, r), (l, r)] \<Longrightarrow>
         \<exists>r'. rows (store_after (restore_dtypes E kvs s)) = [(l, r'), (l, r')]"
proof (induction kvs arbitrary: s r)
  case Nil
  then show ?case by simp
next
  case (Cons kv kvs)
  show ?case
  proof (cases "astype E (snd kv) (store_column s (fst kv))")
    case (Inl e)
    with Cons.prems show ?thesis by simp
  next
    case (Inr c)
    with cast obtain f where "cells c = map f (cells (store_column s (fst kv)))"
      by blast
    with Cons.prems have
      "rows (set_store_column s (fst kv) c) =
         [(l, set_cell (fst kv) (f (row_cells r ! fst kv)) r),
          (l, set_cell (fst kv) (f (row_cells r ! fst kv)) r)]"
      by (simp add: set_store_column_def store_column_def)
    from Cons.IH [OF this] Inr show ?thesis by simp
  qed
qed

lemma mset_twins:
  assumes "mset rs = mset [x, x]"
  shows "rs = [x, x]"
proof -
  from assms have len: "length rs = 2"
    by (metis length_Cons list.size(3) mset_eq_length numeral_2_eq_2)
  from assms have "set rs = {x}"
    by (metis empty_set insert_absorb2 list.simps(15) mset_eq_setD)
  with len show ?thesis
    by (cases rs; cases "tl rs") auto
qed

lemma write_row_twins:
  assumes cast: "\<forall>d c c'. astype E d c = Inr c' \<longrightarrow> (\<exists>f. cells c' = map f (cells c))"
    and sort: "\<forall>rs rs'. lexsort E rs = Inr rs' \<longrightarrow> mset rs' = mset rs"
    and twins: "rows s = [(2, a), (2, b)]"
  shows "\<exists>r. rows (store_after (write_row E s new)) = [(2, r), (2, r)]"
proof -
  define written where
    "written =
       \<lparr>col_dtypes =
          map (\<lambda>dv. setitem_dtype E (int (length (rows s)) \<notin> fst ` set (rows s)) (fst dv) (snd dv))
            (zip (col_dtypes s) (row_cells new)),
        rows = loc_set (int (length (rows s))) new (rows s)\<rparr>"
  from twins have "rows written = [(2, new), (2, new)]"
    by (simp add: written_def loc_set_def)
  from restore_dtypes_twins [OF cast this, of "enumerate 0 (col_dtypes s)"]
  obtain r where r: "rows (store_after (restore_dtypes E (enumerate 0 (col_dtypes s)) written))
                       = [(2, r), (2, r)]"
    by blast
  show ?thesis
  proof (cases "restore_dtypes E (enumerate 0 (col_dtypes s)) written")
    case (Raised e s')
    with r show ?thesis
      by (simp add: write_row_def Let_def written_def [symmetric])
  next
    case (Returned s')
    with r have s': "rows s' = [(2, r), (2, r)]" by simp
    show ?thesis
    proof (cases "lexsort E (rows s')")
      case (Inl e)
      with Returned s' show ?thesis
        by (simp add: write_row_def Let_def written_def [symmetric])
    next
      case (Inr rs)
      with sort s' have "mset rs = mset [(2, r), (2, r)]" by metis
      then have "rs = [(2, r), (2, r)]" by (rule mset_twins)
      with Returned Inr show ?thesis
        by (simp add: write_row_def Let_def written_def [symmetric])
    qed
  qed
qed

lemma twin_store_checks:
  "add_row_checks is_video_id example_clock twin_store (PStr ''12345678901'')
     (PDatetime (naive_noon 2021 6 3)) (PInt 300) PNone PNone PNone
   = Inr (''12345678901'', naive_noon 2021 6 3, 300, None, None, None)"
  by (simp add: add_row_checks_def check_count_def is_video_id_def twin_store_def
        example_row_def eval_time)

lemma twin_store_add_row:
  "add_row E is_video_id example_clock twin_store (PStr ''12345678901'')
     (PDatetime (naive_noon 2021 6 3)) (PInt 300) PNone PNone PNone
   = write_row E twin_store (sample (naive_noon 2021 6 3) 300)"
proof -
  have "\<not> store_canonical twin_store"
    by (simp add: store_canonical_def canonical_dtypes_def frame_dtypes_example_def
          twin_store_def)
  then show ?thesis
    by (simp add: add_row_def twin_store_checks derive_rating_def sample_def)
qed

lemma init_twin_frame:
  "Stats_init example_engine is_video_id example_clock (Frame twin_frame) False = Inr twin_store"
  by (simp add: eval_init eval_time twin_frame_def twin_store_def)

lemma add_row_twin_store:
  "add_row example_engine is_video_id example_clock twin_store (PStr ''12345678901'')
     (PDatetime (naive_noon 2021 6 3)) (PInt 300) PNone PNone PNone
   = Returned \<lparr>col_dtypes = frame_dtypes_example,
               rows = [(2, sample (utc_noon 2021 6 3) 300),
                       (2, sample (utc_noon 2021 6 3) 300)]\<rparr>"
proof -
  have "write_row example_engine twin_store (sample (naive_noon 2021 6 3) 300)
        = Returned \<lparr>col_dtypes = frame_dtypes_example,
                    rows = [(2, sample (utc_noon 2021 6 3) 300),
                            (2, sample (utc_noon 2021 6 3) 300)]\<rparr>"
    by (simp add: write_row_def Let_def twin_store_def loc_set_def
          frame_dtypes_example_def row_cells_def sample_def example_engine_def
          store_column_def set_store_column_def set_cell_def enumerate_eq_zip naive_noon_def
          utc_noon_def fits_datetime64_def fits_int64_def)
  then show ?thesis
    by (simp only: twin_store_add_row)
qed

text \<open>
  Claim C6, at a failing input. A dataset of two samples of the video \<open>"12345678901"\<close>,
  of 1 June and of 2 June 2021, whose rows both carry the index label 2: the constructor
  keeps the rows and their labels, and the keys of the store are unique. Then
  \<open>add_row("12345678901", datetime(2021, 6, 3, 12), 300)\<close> passes the checks, and line
  364 writes the new row at the label \<open>len(self._data)\<close>, which is 2: both rows are
  overwritten. The store the call leaves holds the pair of the new row twice, whether the
  call returns or a cast or the sort raises, and whatever the casts and the sort of the
  library do: a cast converts a column cell by cell and a sort only reorders the rows.
\<close>

theorem add_row_overwrites_twins:
  assumes "\<forall>d c c'. astype E d c = Inr c' \<longrightarrow> (\<exists>f. cells c' = map f (cells c))"
    and "\<forall>rs rs'. lexsort E rs = Inr rs' \<longrightarrow> mset rs' = mset rs"
  shows "unique_rows twin_store
    \<and> \<not> unique_rows (store_after
          (add_row E is_video_id example_clock twin_store (PStr ''12345678901'')
             (PDatetime (naive_noon 2021 6 3)) (PInt 300) PNone PNone PNone))"
proof
  show "unique_rows twin_store"
    by (simp add: unique_rows_def twin_store_def row_key_def example_row_def eval_time)
next
  have "rows twin_store = [(2, example_row (utc_noon 2021 6 1)), (2, example_row (utc_noon 2021 6 2))]"
    by (simp add: twin_store_def)
  from write_row_twins [OF assms this, of "sample (naive_noon 2021 6 3) 300"]
  show "\<not> unique_rows (store_after
          (add_row E is_video_id example_clock twin_store (PStr ''12345678901'')
             (PDatetime (naive_noon 2021 6 3)) (PInt 300) PNone PNone PNone))"
    by (auto simp: twin_store_add_row unique_rows_def)
qed

text \<open>
  With the engine of the evaluations: the constructor builds the store from the dataset,
  the call returns, and the store it leaves, which is reachable, holds the same row twice.
\<close>

theorem add_row_overwrites_twins_witness:
  "Stats_init example_engine is_video_id example_clock (Frame twin_frame) False = Inr twin_store
   \<and> unique_rows twin_store
   \<and> add_row example_engine is_video_id example_clock twin_store (PStr ''12345678901'')
       (PDatetime (naive_noon 2021 6 3)) (PInt 300) PNone PNone PNone
     = Returned \<lparr>col_dtypes = frame_dtypes_example,
                 rows = [(2, sample (utc_noon 2021 6 3) 300),
                         (2, sample (utc_noon 2021 6 3) 300)]\<rparr>
   \<and> reachable example_engine is_video_id
       \<lparr>col_dtypes = frame_dtypes_example,
        rows = [(2, sample (utc_noon 2021 6 3) 300),
                (2, sample (utc_noon 2021 6 3) 300)]\<rparr>
   \<and> \<not> unique_rows
       \<lparr>col_dtypes = frame_dtypes_example,
        rows = [(2, sample (utc_noon 2021 6 3) 300),
                (2, sample (utc_noon 2021 6 3) 300)]\<rparr>"
proof -
  have cast: "\<forall>d c c'. astype example_engine d c = Inr c' \<longrightarrow>
                (\<exists>f. cells c' = map f (cells c))"
  proof (intro allI impI)
    fix d c c'
    assume "astype example_engine d c = Inr c'"
    then have "cells c' = map (cast_cell d) (cells c)"
      by (auto simp: example_engine_def split: if_splits)
    then show "\<exists>f. cells c' = map f (cells c)" by blast
  qed
  have sort: "\<forall>rs rs'. lexsort example_engine rs = Inr rs' \<longrightarrow> mset rs' = mset rs"
    by (auto simp: example_engine_def split: if_splits)
  have r0: "reachable example_engine is_video_id twin_store"
    by (rule reachable.constructed) (rule init_twin_frame)
  have r1: "reachable example_engine is_video_id
       \<lparr>col_dtypes = frame_dtypes_example,
        rows = [(2, sample (utc_noon 2021 6 3) 300),
                (2, sample (utc_noon 2021 6 3) 300)]\<rparr>"
    by (rule reachable.added [OF r0 add_row_twin_store])
  from add_row_overwrites_twins [OF cast sort] init_twin_frame add_row_twin_store r1
  show ?thesis
    by simp
qed

subsection \<open>A raise after the write\<close>

text \<open>
  Line 364 writes in place, and the casts and the sort come after it: a cast that raises
  leaves the store with the new row written and the rows unsorted. Here the store holds
  the sample of 2 June 2021, and the timestamp of the new sample, in the year 1000, passes
  the checks but is outside the range of \<open>datetime64[ns]\<close>, so the cast of the timestamp
  column raises.
\<close>

lemma add_row_raises_after_write:
  "\<exists>e s'. add_row example_engine is_video_id example_clock
            \<lparr>col_dtypes = canonical_dtypes, rows = [(0, sample (naive_noon 2021 6 2) 200)]\<rparr>
            (PStr ''12345678901'') (PDatetime (naive_noon 1000 1 1)) (PInt 100)
            PNone PNone PNone
          = Raised e s'
        \<and> rows s' = [(0, sample (naive_noon 2021 6 2) 200), (1, sample (naive_noon 1000 1 1) 100)]
        \<and> \<not> sorted_rows s'"
  by (simp add: eval_add_row eval_time write_row_def Let_def row_cells_def
        example_engine_def store_column_def set_store_column_def set_cell_def
        enumerate_eq_zip sorted_rows_def)

subsection \<open>\<open>most_recent\<close>\<close>

text \<open>
  Claim C8, at a failing input: an empty store, then \<open>add_row\<close> with the sample of 2 June,
  then \<open>add_row\<close> with the sample of 1 June of the same video. The sort puts the row
  labelled 1 (1 June) before the row labelled 0 (2 June). \<open>idxmax\<close> returns the label 0 of
  the later sample and \<open>iloc\<close> reads it as the position 0, so \<open>most_recent\<close> maps the
  video to the sample of 1 June, the earlier one.
\<close>

theorem most_recent_returns_earlier:
  "Stats_init example_engine is_video_id example_clock NoData False = Inr empty_store
   \<and> add_row E is_video_id example_clock empty_store
       (PStr ''12345678901'') (PDatetime (naive_noon 2021 6 2)) (PInt 200) PNone PNone PNone
     = Returned \<lparr>col_dtypes = canonical_dtypes, rows = [(0, sample (naive_noon 2021 6 2) 200)]\<rparr>
   \<and> add_row E is_video_id example_clock
       \<lparr>col_dtypes = canonical_dtypes, rows = [(0, sample (naive_noon 2021 6 2) 200)]\<rparr>
       (PStr ''12345678901'') (PDatetime (naive_noon 2021 6 1)) (PInt 100) PNone PNone PNone
     = Returned \<lparr>col_dtypes = canonical_dtypes,
                 rows = [(1, sample (naive_noon 2021 6 1) 100),
                         (0, sample (naive_noon 2021 6 2) 200)]\<rparr>
   \<and> most_recent \<lparr>col_dtypes = canonical_dtypes,
                   rows = [(1, sample (naive_noon 2021 6 1) 100),
                           (0, sample (naive_noon 2021 6 2) 200)]\<rparr>
     = Inr [(PStr ''12345678901'', sample (naive_noon 2021 6 1) 100)]"
  by (simp only: init_empty add_first add_second most_recent_two)

subsection \<open>Timestamps in the future\<close>

lemma check_timestamp_clock: "check_timestamp clk v = check_timestamp clk' v"
  by (cases v) (auto simp: py_gt_def py_lt_def datetime_now_utc_def split: option.splits)

lemma Stats_init_clock:
  "Stats_init E ivid clk data interpolate = Stats_init E ivid clk' data interpolate"
proof -
  have eq: "check_timestamp clk = check_timestamp clk'"
    by (rule ext) (rule check_timestamp_clock)
  show ?thesis unfolding Stats_init_def eq by (rule refl)
qed

lemma add_row_future:
  "tzinfo t \<noteq> None \<or> wall_us (datetime_now clk) < wall_us t \<Longrightarrow>
   \<exists>e. add_row E ivid clk s vid (PDatetime t) vws rtg lks dls = Raised e s"
  by (cases vid)
     (auto simp: add_row_def add_row_checks_def py_gt_def py_lt_def datetime_now_def
           split: option.splits)

text \<open>
  Claim C9: the bulk path accepts a timezone-aware timestamp whatever the clock reads:
  \<open>check_timestamp\<close> passes every aware timestamp, in the future or not, and the result
  of \<open>Stats.__init__\<close> does not depend on the current time at all. \<open>add_row\<close> rejects a
  timestamp that lies after \<open>datetime.now()\<close> (and, by the comparison with the naive
  clock, every aware one): it raises and leaves the store as it was.
\<close>

theorem future_timestamps:
  "(tzinfo t \<noteq> None \<longrightarrow> check_timestamp clk (PDatetime t) = Inr ())
   \<and> Stats_init E ivid clk data interpolate = Stats_init E ivid clk' data interpolate
   \<and> (tzinfo t \<noteq> None \<or> wall_us (datetime_now clk) < wall_us t \<longrightarrow>
        (\<exists>e. add_row E ivid clk s vid (PDatetime t) vws rtg lks dls = Raised e s))"
proof (intro conjI impI)
  assume "tzinfo t \<noteq> None"
  then show "check_timestamp clk (PDatetime t) = Inr ()"
    by (auto simp: py_gt_def py_lt_def datetime_now_utc_def split: option.splits)
next
  show "Stats_init E ivid clk data interpolate = Stats_init E ivid clk' data interpolate"
    by (rule Stats_init_clock)
next
  assume "tzinfo t \<noteq> None \<or> wall_us (datetime_now clk) < wall_us t"
  then show "\<exists>e. add_row E ivid clk s vid (PDatetime t) vws rtg lks dls = Raised e s"
    by (rule add_row_future)
qed

text \<open>
  At the clock of 1 January 2022: a dataset whose timestamp is noon of 1 June 2030 UTC is
  accepted, and \<open>add_row\<close> with that timestamp, or with the naive noon of the same day, is
  rejected.
\<close>

theorem future_timestamps_witness:
  "utc_us (datetime_now_utc example_clock) < utc_us (utc_noon 2030 6 1)
   \<and> check_timestamp example_clock (PDatetime (utc_noon 2030 6 1)) = Inr ()
   \<and> Stats_init example_engine is_video_id example_clock
       (Frame (example_frame (utc_noon 2030 6 1))) False
     = Inr \<lparr>col_dtypes = frame_dtypes_example, rows = [(0, example_row (utc_noon 2030 6 1))]\<rparr>
   \<and> (\<exists>e. add_row example_engine is_video_id example_clock empty_store (PStr ''12345678901'')
            (PDatetime (utc_noon 2030 6 1)) (PInt 100) PNone PNone PNone
          = Raised e empty_store)
   \<and> (\<exists>e. add_row example_engine is_video_id example_clock empty_store (PStr ''12345678901'')
            (PDatetime (naive_noon 2030 6 1)) (PInt 100) PNone PNone PNone
          = Raised e empty_store)"
proof -
  have later: "utc_us (datetime_now_utc example_clock) < utc_us (utc_noon 2030 6 1)"
    by (simp add: eval_time)
  have aware: "tzinfo (utc_noon 2030 6 1) \<noteq> None"
    by (simp add: utc_noon_def)
  have naive_later: "wall_us (datetime_now example_clock) < wall_us (naive_noon 2030 6 1)"
    by (simp add: eval_time)
  note a = future_timestamps [of "utc_noon 2030 6 1" example_clock example_engine is_video_id
      NoData False example_clock empty_store "PStr ''12345678901''" "PInt 100" PNone PNone PNone]
  note b = future_timestamps [of "naive_noon 2030 6 1" example_clock example_engine is_video_id
      NoData False example_clock empty_store "PStr ''12345678901''" "PInt 100" PNone PNone PNone]
  from a aware have 1: "check_timestamp example_clock (PDatetime (utc_noon 2030 6 1)) = Inr ()"
    and 2: "\<exists>e. add_row example_engine is_video_id example_clock empty_store (PStr ''12345678901'')
            (PDatetime (utc_noon 2030 6 1)) (PInt 100) PNone PNone PNone
          = Raised e empty_store"
    by blast+
  from b naive_later have 3: "\<exists>e. add_row example_engine is_video_id example_clock empty_store
            (PStr ''12345678901'') (PDatetime (naive_noon 2030 6 1)) (PInt 100) PNone PNone PNone
          = Raised e empty_store"
    by blast
  from later 1 2 3 init_frame [of 2030 6 1] show ?thesis
    by blast
qed

subsection \<open>\<open>coerce_dtypes\<close> is idempotent\<close>

lemma check_column_cong:
  "map_of (columns df) n = map_of (columns df') n \<Longrightarrow>
   check_column E df n a = check_column E df' n a"
  by (simp add: check_column_def)

lemma coerce_column_cases:
  assumes "coerce_column E data res na = Inr res'"
  shows "(check_dtypes E data [na] = Inr True \<and> res' = res) \<or>
         (\<exists>ts d c c'. check_dtypes E data [na] = Inr False \<and> snd na = Single ts \<and>
             coerce_lookup ts = Some d \<and> map_of (columns res) (fst na) = Some c \<and>
             astype E d c = Inr c' \<and>
             res' = res\<lparr>columns := AList.update (fst na) c' (columns res)\<rparr>)"
  using assms unfolding coerce_column_def
  by (auto split: sum.splits bool.splits option.splits tsarg.splits)

lemma first_run:
  assumes "coerce_loop E data res kw = Inr r" and "distinct (map fst kw)"
    and "\<forall>na\<in>set kw. map_of (columns res) (fst na) = map_of (columns data) (fst na)"
  shows "(\<forall>na\<in>set kw.
            (check_dtypes E data [na] = Inr True \<and>
             map_of (columns r) (fst na) = map_of (columns data) (fst na)) \<or>
            (\<exists>ts d c c'. snd na = Single ts \<and> coerce_lookup ts = Some d \<and>
               astype E d c = Inr c' \<and> map_of (columns r) (fst na) = Some c'))
         \<and> (\<forall>n. n \<notin> fst ` set kw \<longrightarrow> map_of (columns r) n = map_of (columns res) n)"
  using assms
proof (induction kw arbitrary: res)
  case Nil
  then show ?case by simp
next
  case (Cons na kw)
  from Cons.prems(1) obtain res' where step: "coerce_column E data res na = Inr res'"
    and rest: "coerce_loop E data res' kw = Inr r"
    by (cases "coerce_column E data res na") auto
  from Cons.prems(2) have dist: "distinct (map fst kw)" and fresh: "fst na \<notin> fst ` set kw"
    by auto
  from coerce_column_cases [OF step]
  have other: "\<And>n. n \<noteq> fst na \<Longrightarrow> map_of (columns res') n = map_of (columns res) n"
    by (auto simp: update_conv')
  have pre: "\<forall>nb\<in>set kw. map_of (columns res') (fst nb) = map_of (columns data) (fst nb)"
  proof
    fix nb assume nb: "nb \<in> set kw"
    with fresh have "fst nb \<noteq> fst na" by (metis imageI)
    with other Cons.prems(3) nb show "map_of (columns res') (fst nb) = map_of (columns data) (fst nb)"
      by simp
  qed
  note ih1 = Cons.IH [OF rest dist pre, THEN conjunct1]
    and ih2 = Cons.IH [OF rest dist pre, THEN conjunct2, rule_format]
  from fresh have keep: "map_of (columns r) (fst na) = map_of (columns res') (fst na)"
    by (rule ih2)
  have here: "(check_dtypes E data [na] = Inr True \<and>
             map_of (columns r) (fst na) = map_of (columns data) (fst na)) \<or>
            (\<exists>ts d c c'. snd na = Single ts \<and> coerce_lookup ts = Some d \<and>
               astype E d c = Inr c' \<and> map_of (columns r) (fst na) = Some c')"
    using coerce_column_cases [OF step]
  proof
    assume "check_dtypes E data [na] = Inr True \<and> res' = res"
    with keep Cons.prems(3) show ?thesis by simp
  next
    assume "\<exists>ts d c c'. check_dtypes E data [na] = Inr False \<and> snd na = Single ts \<and>
             coerce_lookup ts = Some d \<and> map_of (columns res) (fst na) = Some c \<and>
             astype E d c = Inr c' \<and>
             res' = res\<lparr>columns := AList.update (fst na) c' (columns res)\<rparr>"
    then obtain ts d c c' where "snd na = Single ts" "coerce_lookup ts = Some d"
      "astype E d c = Inr c'" "res' = res\<lparr>columns := AList.update (fst na) c' (columns res)\<rparr>"
      by blast
    moreover from this keep have "map_of (columns r) (fst na) = Some c'"
      by (simp add: update_conv')
    ultimately show ?thesis by blast
  qed
  have frame: "\<forall>n. n \<notin> fst ` set (na # kw) \<longrightarrow> map_of (columns r) n = map_of (columns res) n"
  proof (intro allI impI)
    fix n assume n: "n \<notin> fst ` set (na # kw)"
    then have "n \<noteq> fst na" and "n \<notin> fst ` set kw" by simp_all
    then show "map_of (columns r) n = map_of (columns res) n"
      by (simp add: ih2 other)
  qed
  show ?case
  proof (rule conjI)
    show "\<forall>nb\<in>set (na # kw).
            (check_dtypes E data [nb] = Inr True \<and>
             map_of (columns r) (fst nb) = map_of (columns data) (fst nb)) \<or>
            (\<exists>ts d c c'. snd nb = Single ts \<and> coerce_lookup ts = Some d \<and>
               astype E d c = Inr c' \<and> map_of (columns r) (fst nb) = Some c')"
      using here ih1 by (simp only: list.set ball_simps(7) Un_iff ball_Un)
  next
    show "\<forall>n. n \<notin> fst ` set (na # kw) \<longrightarrow> map_of (columns r) n = map_of (columns res) n"
      by (rule frame)
  qed
qed

lemma known_typespec: "coerce_lookup ts = Some d \<Longrightarrow> \<exists>p. check_lookup ts = Some p"
  by (cases ts) simp_all

lemma check_dtypes_single:
  "check_column E df (fst na) (snd na) = Inr b \<Longrightarrow> check_dtypes E df [na] = Inr b"
  by (cases b) simp_all

lemma check_column_known:
  assumes "map_of (columns df) n = Some c" and "check_lookup ts = Some p"
  shows "\<exists>b. check_column E df n (Single ts) = Inr b"
  using assms by (auto simp: check_column_def check_one_def)

lemma second_step:
  assumes cast: "\<forall>d c c'. astype E d c = Inr c' \<longrightarrow> astype E d c' = Inr c'"
    and "(check_dtypes E data [na] = Inr True \<and>
             map_of (columns r) (fst na) = map_of (columns data) (fst na)) \<or>
            (\<exists>ts d c c'. snd na = Single ts \<and> coerce_lookup ts = Some d \<and>
               astype E d c = Inr c' \<and> map_of (columns r) (fst na) = Some c')"
  shows "coerce_column E r r na = Inr r"
  using assms(2)
proof
  assume a: "check_dtypes E data [na] = Inr True \<and>
             map_of (columns r) (fst na) = map_of (columns data) (fst na)"
  then have eqc: "map_of (columns r) (fst na) = map_of (columns data) (fst na)"
    by (rule conjunct2)
  have cc: "check_column E r (fst na) (snd na) = check_column E data (fst na) (snd na)"
    using eqc by (rule check_column_cong)
  have "check_dtypes E r [na] = check_dtypes E data [na]"
    unfolding check_dtypes.simps cc by (simp split: sum.splits bool.splits)
  with a have "check_dtypes E r [na] = Inr True" by (simp del: check_dtypes.simps)
  then show ?thesis by (simp add: coerce_column_def del: check_dtypes.simps)
next
  assume "\<exists>ts d c c'. snd na = Single ts \<and> coerce_lookup ts = Some d \<and>
               astype E d c = Inr c' \<and> map_of (columns r) (fst na) = Some c'"
  then obtain ts d c c' where ts: "snd na = Single ts" and d: "coerce_lookup ts = Some d"
    and c': "astype E d c = Inr c'" and col: "map_of (columns r) (fst na) = Some c'"
    by blast
  from cast c' have again: "astype E d c' = Inr c'" by blast
  from known_typespec [OF d] obtain p where p: "check_lookup ts = Some p" by blast
  from col have same: "AList.update (fst na) c' (columns r) = columns r"
    by (rule update_triv)
  from check_column_known [OF col p] ts obtain b where
    "check_column E r (fst na) (snd na) = Inr b" by auto
  then have b: "check_dtypes E r [na] = Inr b" by (rule check_dtypes_single)
  show ?thesis
  proof (cases b)
    case True
    with b show ?thesis by (simp add: coerce_column_def del: check_dtypes.simps)
  next
    case False
    with b ts d col again same show ?thesis
      by (simp add: coerce_column_def del: check_dtypes.simps)
  qed
qed

lemma cast_cell_idem: "cast_cell d (cast_cell d v) = cast_cell d v"
  by (cases "(d, v)" rule: cast_cell.cases) auto

lemma in_range_cast_cell: "in_range d (cast_cell d v) = in_range d v"
  by (cases "(d, v)" rule: cast_cell.cases) (auto simp: fits_datetime64_def)

lemma second_run:
  "\<forall>na\<in>set kw. coerce_column E r r na = Inr r \<Longrightarrow> coerce_loop E r r kw = Inr r"
  by (induction kw) simp_all

text \<open>
  Claim C7: \<open>coerce_dtypes\<close> is idempotent. For every dataframe and every keyword
  arguments (distinct column names, as in a Python dictionary): when \<open>coerce_dtypes\<close>
  returns a frame, applying it again to that frame with the same arguments returns the same
  frame. The engine is any whose cast of an already cast column, to the same storage type,
  gives the column back.
\<close>

theorem coerce_dtypes_idempotent:
  assumes "\<forall>d c c'. astype E d c = Inr c' \<longrightarrow> astype E d c' = Inr c'"
    and "distinct (map fst kw)"
    and "coerce_dtypes E data kw = Inr r"
  shows "coerce_dtypes E r kw = Inr r"
proof -
  from assms(3) have ne: "kw \<noteq> []" and loop: "coerce_loop E data data kw = Inr r"
    by (auto simp: coerce_dtypes_def split: if_splits)
  from first_run [OF loop assms(2)] have
    "\<forall>na\<in>set kw.
            (check_dtypes E data [na] = Inr True \<and>
             map_of (columns r) (fst na) = map_of (columns data) (fst na)) \<or>
            (\<exists>ts d c c'. snd na = Single ts \<and> coerce_lookup ts = Some d \<and>
               astype E d c = Inr c' \<and> map_of (columns r) (fst na) = Some c')"
    by simp
  then have "\<forall>na\<in>set kw. coerce_column E r r na = Inr r"
  proof (intro ballI)
    fix na assume f: "\<forall>na\<in>set kw.
            (check_dtypes E data [na] = Inr True \<and>
             map_of (columns r) (fst na) = map_of (columns data) (fst na)) \<or>
            (\<exists>ts d c c'. snd na = Single ts \<and> coerce_lookup ts = Some d \<and>
               astype E d c = Inr c' \<and> map_of (columns r) (fst na) = Some c')"
      and "na \<in> set kw"
    then have "(check_dtypes E data [na] = Inr True \<and>
             map_of (columns r) (fst na) = map_of (columns data) (fst na)) \<or>
            (\<exists>ts d c c'. snd na = Single ts \<and> coerce_lookup ts = Some d \<and>
               astype E d c = Inr c' \<and> map_of (columns r) (fst na) = Some c')"
      by (rule bspec)
    then show "coerce_column E r r na = Inr r"
      by (rule second_step [OF assms(1)])
  qed
  then have "coerce_loop E r r kw = Inr r" by (rule second_run)
  with ne show ?thesis by (simp add: coerce_dtypes_def)
qed

theorem coerce_dtypes_idempotent_witness:
  "distinct (map fst [(''views'', Single T_int)])
   \<and> coerce_dtypes example_engine (views_frame D_object) [(''views'', Single T_int)]
       = Inr (views_frame (D_int True))
   \<and> coerce_dtypes example_engine (views_frame (D_int True)) [(''views'', Single T_int)]
       = Inr (views_frame (D_int True))"
proof -
  have cast: "\<forall>d c c'. astype example_engine d c = Inr c' \<longrightarrow> astype example_engine d c' = Inr c'"
    by (auto simp: example_engine_def list_all_iff cast_cell_idem in_range_cast_cell o_def
             split: if_splits)
  have dist: "distinct (map fst [(''views'', Single T_int)])"
    by simp
  have first: "coerce_dtypes example_engine (views_frame D_object) [(''views'', Single T_int)]
       = Inr (views_frame (D_int True))"
    by (simp add: coerce_dtypes_def coerce_column_def check_column_def check_one_def
          narrowed_def example_engine_def views_frame_def fits_int64_def)
  from coerce_dtypes_idempotent [OF cast dist first] dist first show ?thesis
    by simp
qed

section \<open>Verified properties of \<open>info.py\<close>\<close>

subsection \<open>\<open>publish_date <= last_updated\<close>\<close>

















subsection \<open>Reassignment and the \<open>immutable\<close> flag\<close>









































subsection \<open>\<open>to_json\<close> and \<open>from_json\<close>\<close>














end
